theory Spec2Isabelle
  imports
    Main
    "HOL-Library.Char_ord"
    "HOL-Library.List_Lexorder"
    "HOL-Library.Product_Lexorder"
    "HOL-Library.Sublist"
begin

chapter \<open>Multi-agent samples: the shared runtime and the domain agents\<close>

text \<open>
  The development embeds the Python sources of the repository: the LLM client
  (\<^verbatim>\<open>llm_client.py\<close>), the persistence clients (\<^verbatim>\<open>agent_utils.py\<close>), the agent base
  class (\<^verbatim>\<open>agent_base.py\<close>), the eight domain agents and the CloudFormation event
  parser. Python values that travel as JSON are values of the datatype \<open>json\<close>;
  a Python \<^verbatim>\<open>dict\<close> is an association list in insertion order; an exception is
  a value of the type \<open>error\<close> returned on the left of a sum; every service the code
  calls through boto3 is an explicit store passed in and returned.
\<close>

section \<open>Python values\<close>

datatype json =
    JNull
  | JBool bool
  | JInt int
  | JStr string
  | JArr "json list"
  | JObj "(string \<times> json) list"

type_synonym dict = "(string \<times> json) list"

datatype error =
    ValueError string
  | TypeError string
  | AttributeError string
  | KeyError string
  | ClientError string

text \<open>\<^verbatim>\<open>str(e)\<close> of an exception: its message.\<close>

fun str_of_error :: "error \<Rightarrow> string" where
  "str_of_error (ValueError m) = m"
| "str_of_error (TypeError m) = m"
| "str_of_error (AttributeError m) = m"
| "str_of_error (KeyError m) = m"
| "str_of_error (ClientError m) = m"

text \<open>
  The message of the \<^verbatim>\<open>AttributeError\<close> that Python raises for a missing attribute:
  \<^verbatim>\<open>'<type>' object has no attribute '<name>'\<close>; \<open>type_name\<close> is \<^verbatim>\<open>type(v).__name__\<close>.
  The message of a \<^verbatim>\<open>ClientError\<close> is the service's; the model writes the name of the call
  or the error code in its place.
\<close>

definition type_name :: "json \<Rightarrow> string" where
  "type_name v =
     (case v of
        JNull \<Rightarrow> ''NoneType''
      | JBool b \<Rightarrow> ''bool''
      | JInt i \<Rightarrow> ''int''
      | JStr s \<Rightarrow> ''str''
      | JArr xs \<Rightarrow> ''list''
      | JObj kvs \<Rightarrow> ''dict'')"

definition no_attribute :: "string \<Rightarrow> string \<Rightarrow> error" where
  "no_attribute tname attr =
     AttributeError (CHR 0x27 # tname @ CHR 0x27 # '' object has no attribute ''
                     @ CHR 0x27 # attr @ [CHR 0x27])"

text \<open>\<^verbatim>\<open>d.get(k)\<close> is \<open>map_of d k\<close>; \<^verbatim>\<open>d.get(k, default)\<close>:\<close>

definition dict_get :: "('k \<times> 'v) list \<Rightarrow> 'k \<Rightarrow> 'v \<Rightarrow> 'v" where
  "dict_get d k dflt = (case map_of d k of None \<Rightarrow> dflt | Some v \<Rightarrow> v)"

text \<open>\<^verbatim>\<open>d[k] = v\<close>: an existing key keeps its position, a new key goes last.\<close>

fun dict_set :: "'k \<Rightarrow> 'v \<Rightarrow> ('k \<times> 'v) list \<Rightarrow> ('k \<times> 'v) list" where
  "dict_set k v [] = [(k, v)]"
| "dict_set k v (p # ps) = (if fst p = k then (k, v) # ps else p # dict_set k v ps)"

text \<open>Truth value of a Python object (\<^verbatim>\<open>if not x\<close>).\<close>

fun truthy :: "json \<Rightarrow> bool" where
  "truthy JNull = False"
| "truthy (JBool b) = b"
| "truthy (JInt i) = (i \<noteq> 0)"
| "truthy (JStr s) = (s \<noteq> [])"
| "truthy (JArr xs) = (xs \<noteq> [])"
| "truthy (JObj kvs) = (kvs \<noteq> [])"

abbreviation NL :: char where
  "NL \<equiv> CHR 0x0A"

section \<open>The LLM client (\<^verbatim>\<open>llm_client.py\<close>)\<close>

text \<open>
  A message is a \<^verbatim>\<open>Dict[str, str]\<close>. \<open>role_of\<close> is \<^verbatim>\<open>msg.get('role')\<close> and
  \<open>content_of\<close> is \<^verbatim>\<open>msg.get('content', '')\<close>.
\<close>

type_synonym message = "(string \<times> string) list"

definition role_of :: "message \<Rightarrow> string option" where
  "role_of msg = map_of msg ''role''"

definition content_of :: "message \<Rightarrow> string" where
  "content_of msg = dict_get msg ''content'' []"

text \<open>
  Lines 76--83 of \<^verbatim>\<open>_invoke_via_bedrock\<close>: the first loop collects
  \<^verbatim>\<open>has_system\<close> and \<^verbatim>\<open>system_content\<close>.
\<close>

fun extract_system :: "message list \<Rightarrow> bool \<times> string \<Rightarrow> bool \<times> string" where
  "extract_system [] acc = acc"
| "extract_system (msg # rest) (has_system, system_content) =
     (if role_of msg = Some ''system''
      then extract_system rest (True, system_content @ content_of msg @ [NL, NL])
      else extract_system rest (has_system, system_content))"

text \<open>
  Lines 86--99: the second loop, over \<^verbatim>\<open>enumerate(messages)\<close>. The index \<open>i\<close> is
  the position in the input list, system messages included.
\<close>

fun build_valid_messages :: "bool \<Rightarrow> string \<Rightarrow> nat \<Rightarrow> message list \<Rightarrow> message list" where
  "build_valid_messages has_system system_content i [] = []"
| "build_valid_messages has_system system_content i (msg # rest) =
     (if role_of msg = Some ''system''
      then build_valid_messages has_system system_content (Suc i) rest
      else if role_of msg = Some ''user''
      then (if i = 0 \<and> has_system
            then [(''role'', ''user''),
                  (''content'', system_content @ [NL, NL] @ content_of msg)]
            else msg)
           # build_valid_messages has_system system_content (Suc i) rest
      else if role_of msg = Some ''assistant''
      then msg # build_valid_messages has_system system_content (Suc i) rest
      else build_valid_messages has_system system_content (Suc i) rest)"

text \<open>\<^verbatim>\<open>xs.insert(i, m)\<close> for \<open>i \<le> length xs\<close>.\<close>

definition list_insert :: "nat \<Rightarrow> 'a \<Rightarrow> 'a list \<Rightarrow> 'a list" where
  "list_insert i m xs = take i xs @ m # drop i xs"

text \<open>
  Lines 107--123: the body of the alternation loop at index \<open>i\<close>. The loop only
  inserts, so \<open>i\<close> stays below the length of the list and both reads are in range.
\<close>

definition bridge_step :: "nat \<Rightarrow> message list \<Rightarrow> message list" where
  "bridge_step i valid_messages =
     (if role_of (valid_messages ! i) = role_of (valid_messages ! (i - 1))
      then (if i = length valid_messages - 1 \<and> role_of (valid_messages ! i) = Some ''user''
            then valid_messages
            else if role_of (valid_messages ! i) = Some ''user''
            then list_insert i
                   [(''role'', ''assistant''), (''content'', ''I understand. Please continue.'')]
                   valid_messages
            else list_insert i
                   [(''role'', ''user''), (''content'', ''Please continue.'')]
                   valid_messages)
      else valid_messages)"

text \<open>
  Line 106: \<^verbatim>\<open>for i in range(1, len(valid_messages))\<close>. The range is computed once,
  from the length of the list before the loop.
\<close>

definition enforce_alternation :: "message list \<Rightarrow> message list" where
  "enforce_alternation valid_messages =
     fold bridge_step [1 ..< length valid_messages] valid_messages"

text \<open>
  Lines 74--131: the \<^verbatim>\<open>messages\<close> entry of the request body, or the
  \<^verbatim>\<open>ValueError\<close> of line 103.
\<close>

definition outbound_messages :: "message list \<Rightarrow> error + message list" where
  "outbound_messages messages =
     (let (has_system, system_content) = extract_system messages (False, []);
          valid_messages = build_valid_messages has_system system_content 0 messages
      in if valid_messages = [] then Inl (ValueError ''No valid messages provided'')
         else Inr (enforce_alternation valid_messages))"

text \<open>
  The response body of the model, as lines 141--157 read it: a list of content
  blocks, a single content value, or a body without \<^verbatim>\<open>content\<close> (kept as the text
  \<^verbatim>\<open>str(response_body)\<close>).
\<close>

datatype response_body =
    ContentBlocks "message list"
  | ContentValue json
  | NoContent string

fun unify_response :: "response_body \<Rightarrow> dict" where
  "unify_response (ContentBlocks blocks) =
     [(''content'',
       JStr (concat (map (\<lambda>b. dict_get b ''text'' [])
                         (filter (\<lambda>b. map_of b ''type'' = Some ''text'') blocks))))]"
| "unify_response (ContentValue v) = [(''content'', v)]"
| "unify_response (NoContent s) = [(''content'', JStr s)]"

text \<open>
  \<^verbatim>\<open>invoke_llm\<close> and \<^verbatim>\<open>_invoke_via_bedrock\<close>. The hosted model is the parameter
  \<open>invoke_model\<close>: it receives the outbound message list and answers with a
  response body or fails.
\<close>

definition invoke_llm ::
  "(message list \<Rightarrow> error + response_body) \<Rightarrow> message list \<Rightarrow> error + dict" where
  "invoke_llm invoke_model messages =
     (case outbound_messages messages of
        Inl e \<Rightarrow> Inl e
      | Inr valid_messages \<Rightarrow>
          (case invoke_model valid_messages of
             Inl e \<Rightarrow> Inl e
           | Inr body \<Rightarrow> Inr (unify_response body)))"

section \<open>Strings as Python handles them\<close>

definition digit_of :: "char \<Rightarrow> nat option" where
  "digit_of c =
     map_of [(CHR ''0'', 0), (CHR ''1'', 1), (CHR ''2'', 2), (CHR ''3'', 3), (CHR ''4'', 4),
             (CHR ''5'', 5), (CHR ''6'', 6), (CHR ''7'', 7), (CHR ''8'', 8), (CHR ''9'', 9)] c"

definition is_digit :: "char \<Rightarrow> bool" where
  "is_digit c = (digit_of c \<noteq> None)"

text \<open>The value of a non-empty string of decimal digits.\<close>

definition digits_value :: "string \<Rightarrow> nat" where
  "digits_value s = foldl (\<lambda>n c. 10 * n + the (digit_of c)) 0 s"

definition digit_char :: "nat \<Rightarrow> char" where
  "digit_char d = ''0123456789'' ! d"

text \<open>Decimal text of a number, as an f-string prints an \<^verbatim>\<open>int\<close>.\<close>

fun show_nat :: "nat \<Rightarrow> string" where
  "show_nat n = (if n < 10 then [digit_char n] else show_nat (n div 10) @ [digit_char (n mod 10)])"

definition show_int :: "int \<Rightarrow> string" where
  "show_int i = (if i < 0 then CHR ''-'' # show_nat (nat (- i)) else show_nat (nat i))"

text \<open>
  CPython converts between \<^verbatim>\<open>int\<close> and \<^verbatim>\<open>str\<close> up to 4300 digits
  (\<^verbatim>\<open>sys.int_info.default_max_str_digits\<close>) and raises \<^verbatim>\<open>ValueError\<close> beyond. The sign
  does not count.
\<close>

definition max_str_digits :: nat where
  "max_str_digits = 4300"

definition digits_error :: error where
  "digits_error = ValueError (''Exceeds the limit (4300 digits) for integer string conversion; ''
     @ ''use sys.set_int_max_str_digits() to increase the limit'')"

definition int_digits :: "int \<Rightarrow> nat" where
  "int_digits i = length (show_nat (nat \<bar>i\<bar>))"

text \<open>An \<^verbatim>\<open>int\<close> inside an f-string.\<close>

definition format_int :: "int \<Rightarrow> error + string" where
  "format_int i = (if max_str_digits < int_digits i then Inl digits_error else Inr (show_int i))"

text \<open>
  \<^verbatim>\<open>strftime('%m')\<close> writes the month with two digits: the number padded with zeros to
  the width. \<^verbatim>\<open>strftime('%Y')\<close> hands the year to the C library, which on Linux writes it
  in decimal without padding (\<^verbatim>\<open>999\<close> for the year 999): that is \<open>show_nat\<close>.
\<close>

definition zero_pad :: "nat \<Rightarrow> nat \<Rightarrow> string" where
  "zero_pad w n = replicate (w - length (show_nat n)) (CHR ''0'') @ show_nat n"

text \<open>\<^verbatim>\<open>s.split(sep)\<close> for a one-character separator: never empty.\<close>

fun split_on :: "char \<Rightarrow> string \<Rightarrow> string list" where
  "split_on sep [] = [[]]"
| "split_on sep (c # cs) =
     (if c = sep then [] # split_on sep cs
      else (case split_on sep cs of
              [] \<Rightarrow> [[c]]
            | w # ws \<Rightarrow> (c # w) # ws))"

text \<open>\<^verbatim>\<open>timestamp.replace('Z', '+00:00')\<close>: every \<^verbatim>\<open>Z\<close>, not only a trailing one.\<close>

fun replace_Z :: "string \<Rightarrow> string" where
  "replace_Z [] = []"
| "replace_Z (c # cs) = (if c = CHR ''Z'' then ''+00:00'' @ replace_Z cs else c # replace_Z cs)"

text \<open>
  The characters of a string are code points below 256. \<^verbatim>\<open>int()\<close> strips these blanks
  from both ends of its argument.
\<close>

definition is_space :: "char \<Rightarrow> bool" where
  "is_space c =
     (c \<in> set [CHR 0x20, CHR 0x09, CHR 0x0A, CHR 0x0B, CHR 0x0C, CHR 0x0D, CHR 0x85, CHR 0xA0])"

definition strip :: "string \<Rightarrow> string" where
  "strip s = rev (dropWhile is_space (rev (dropWhile is_space s)))"

text \<open>
  Decimal digits in groups that single underscores separate (\<^verbatim>\<open>1_000\<close>): no group is
  empty, and there are at most 4300 digits.
\<close>

definition nat_of_groups :: "string \<Rightarrow> nat option" where
  "nat_of_groups s =
     (let groups = split_on (CHR ''_'') s
      in if list_all (\<lambda>g. g \<noteq> [] \<and> list_all is_digit g) groups
              \<and> length (concat groups) \<le> max_str_digits
         then Some (digits_value (concat groups)) else None)"

text \<open>
  \<^verbatim>\<open>int(s)\<close> on a string: surrounding white space, an optional sign, groups of decimal
  digits; \<open>None\<close> is the \<^verbatim>\<open>ValueError\<close>.
\<close>

definition py_int :: "string \<Rightarrow> int option" where
  "py_int s =
     (case strip s of
        [] \<Rightarrow> None
      | c # cs \<Rightarrow>
          if c = CHR ''-'' then map_option (\<lambda>n. - int n) (nat_of_groups cs)
          else if c = CHR ''+'' then map_option int (nat_of_groups cs)
          else map_option int (nat_of_groups (c # cs)))"

section \<open>Dates and the clock\<close>

text \<open>
  \<^verbatim>\<open>datetime\<close> is library code, and what \<^verbatim>\<open>datetime.fromisoformat\<close> accepts depends on
  the version of Python that runs the client. The client reads the clock
  (\<^verbatim>\<open>datetime.now()\<close>), parses a timestamp and takes the year and the month of the
  result, so the model takes these answers from outside: \<open>dt_now k\<close> is the year and month
  that the reading of the clock after \<open>k\<close> earlier readings gives, and \<open>dt_fromisoformat s\<close>
  the year and month of the parsed text, \<open>None\<close> when the parser raises \<^verbatim>\<open>ValueError\<close>.
  \<open>later\<close> is the library after one reading of the clock.
\<close>

record datetime_api =
  dt_now :: "nat \<Rightarrow> nat \<times> nat"
  dt_fromisoformat :: "string \<Rightarrow> (nat \<times> nat) option"

definition later :: "datetime_api \<Rightarrow> datetime_api" where
  "later dt = dt\<lparr>dt_now := (\<lambda>k. dt_now dt (Suc k))\<rparr>"

section \<open>The artifact store (\<^verbatim>\<open>S3Client\<close> of \<^verbatim>\<open>agent_utils.py\<close>)\<close>

text \<open>
  The bucket is its objects, key and document, in an association list; the three
  flags say whether the service answers a listing, a write and a read (a call the
  service refuses raises \<^verbatim>\<open>ClientError\<close>). A stored body is the JSON text of a
  document and \<^verbatim>\<open>json.loads\<close> gives the document back, so the model stores the
  document itself.
\<close>

record s3 =
  bucket_name :: string
  objects :: "(string \<times> dict) list"
  list_ok :: bool
  put_ok :: bool
  get_ok :: bool

text \<open>
  \<^verbatim>\<open>list_objects_v2(Bucket, Prefix, MaxKeys)\<close>: the keys under the prefix in
  ascending byte order, at most \<open>max_keys\<close> of them.
\<close>

definition list_objects_v2 :: "s3 \<Rightarrow> string \<Rightarrow> nat \<Rightarrow> error + string list" where
  "list_objects_v2 st pfx max_keys =
     (if list_ok st
      then Inr (take max_keys (sort (filter (prefix pfx) (map fst (objects st)))))
      else Inl (ClientError ''ListObjectsV2''))"

definition artifact_prefix :: "nat \<times> nat \<Rightarrow> string \<Rightarrow> string \<Rightarrow> string \<Rightarrow> string" where
  "artifact_prefix ym project_id agent_type artifact_type =
     ''projects/'' @ show_nat (fst ym) @ ''/'' @ zero_pad 2 (snd ym) @ ''/'' @ project_id
       @ ''/'' @ agent_type @ ''/'' @ artifact_type @ ''/''"

text \<open>\<^verbatim>\<open>key.split('/')[-1]\<close>.\<close>

definition filename_of :: "string \<Rightarrow> string" where
  "filename_of key = last (split_on (CHR ''/'') key)"

text \<open>
  \<^verbatim>\<open>int(filename.split('_')[1])\<close>; \<open>None\<close> when the index or the number fails
  (\<^verbatim>\<open>IndexError\<close>, \<^verbatim>\<open>ValueError\<close>: both handlers \<^verbatim>\<open>continue\<close>).
\<close>

definition seq_of_filename :: "string \<Rightarrow> int option" where
  "seq_of_filename filename =
     (case split_on (CHR ''_'') filename of
        _ # seq_str # _ \<Rightarrow> py_int seq_str
      | _ \<Rightarrow> None)"

text \<open>Lines 113--125: one turn of the loop over the listing.\<close>

definition seq_step :: "string \<Rightarrow> int \<Rightarrow> int" where
  "seq_step key max_seq =
     (let filename = filename_of key
      in if prefix ''seq_'' filename
         then (case seq_of_filename filename of
                 Some seq_num \<Rightarrow> max max_seq seq_num
               | None \<Rightarrow> max_seq)
         else max_seq)"

text \<open>
  \<^verbatim>\<open>_get_artifact_sequence_number\<close> reads the clock once, on line 98, and lists the prefix
  of that month.
\<close>

definition get_artifact_sequence_number ::
  "datetime_api \<Rightarrow> s3 \<Rightarrow> string \<Rightarrow> string \<Rightarrow> string \<Rightarrow> int" where
  "get_artifact_sequence_number dt st project_id agent_type artifact_type =
     (case list_objects_v2 st
             (artifact_prefix (dt_now dt 0) project_id agent_type artifact_type) 1000 of
        Inl e \<Rightarrow> 1
      | Inr keys \<Rightarrow> fold seq_step keys 0 + 1)"

text \<open>
  Lines 149--161 of \<^verbatim>\<open>_format_path\<close>: the year and month of the key. A timestamp that
  is \<^verbatim>\<open>None\<close> or empty is replaced by the text of \<^verbatim>\<open>datetime.now()\<close>, which parses back
  to that reading; a timestamp that does not parse makes the handler read the clock. Either
  way the clock is read at most once. The f-string of line 168 raises when the sequence
  number has too many digits to print.
\<close>

definition path_year_month :: "datetime_api \<Rightarrow> string option \<Rightarrow> nat \<times> nat" where
  "path_year_month dt timestamp =
     (case timestamp of
        None \<Rightarrow> dt_now dt 0
      | Some ts \<Rightarrow>
          if ts = [] then dt_now dt 0
          else (case dt_fromisoformat dt (replace_Z ts) of
                  Some ym \<Rightarrow> ym
                | None \<Rightarrow> dt_now dt 0))"

definition format_path ::
  "datetime_api \<Rightarrow> string \<Rightarrow> string \<Rightarrow> string \<Rightarrow> string \<Rightarrow> string option \<Rightarrow> int
     \<Rightarrow> error + string" where
  "format_path dt project_id agent_type artifact_type artifact_id timestamp sequence_number =
     (let ym = path_year_month dt timestamp;
          sequence_number = (if sequence_number < 1 then 1 else sequence_number)
      in case format_int sequence_number of
           Inl e \<Rightarrow> Inl e
         | Inr seq_text \<Rightarrow>
             Inr (''projects/'' @ show_nat (fst ym) @ ''/'' @ zero_pad 2 (snd ym) @ ''/''
                  @ project_id @ ''/'' @ agent_type @ ''/'' @ artifact_type @ ''/seq_'' @ seq_text
                  @ ''_'' @ artifact_id @ ''.json''))"

text \<open>
  \<^verbatim>\<open>json.dumps\<close> writes every document of the model, unless an integer in it has too many
  digits to print.
\<close>

fun dumpable :: "json \<Rightarrow> bool" where
  "dumpable (JInt i) = (int_digits i \<le> max_str_digits)"
| "dumpable (JArr xs) = list_all dumpable xs"
| "dumpable (JObj kvs) = list_all (\<lambda>kv. dumpable (snd kv)) kvs"
| "dumpable v = True"

text \<open>\<^verbatim>\<open>upload_json\<close>: the response of \<^verbatim>\<open>put_object\<close> is opaque, an empty document here.\<close>

definition upload_json :: "s3 \<Rightarrow> dict \<Rightarrow> string \<Rightarrow> error + s3 \<times> dict" where
  "upload_json st data object_key =
     (if \<not> dumpable (JObj data) then Inl digits_error
      else if put_ok st
      then Inr (st\<lparr>objects := dict_set object_key data (objects st)\<rparr>, [])
      else Inl (ClientError ''PutObject''))"

text \<open>
  \<^verbatim>\<open>upload_artifact\<close> assigns into its argument (\<^verbatim>\<open>data['sequence_number'] = ...\<close>,
  line 226) before it writes. The first component of the result is the caller's
  dictionary as the call leaves it, the second the bucket, the third what the call
  returns or raises. The sequence number is found with the first reading of the clock;
  \<^verbatim>\<open>_format_path\<close> runs after it.
\<close>

definition upload_artifact ::
  "datetime_api \<Rightarrow> s3 \<Rightarrow> dict \<Rightarrow> string \<Rightarrow> string \<Rightarrow> string \<Rightarrow> string \<Rightarrow> string option
     \<Rightarrow> dict \<times> s3 \<times> (error + dict)" where
  "upload_artifact dt st data project_id agent_type artifact_type artifact_id timestamp =
     (let sequence_number = get_artifact_sequence_number dt st project_id agent_type artifact_type
      in case format_path (later dt) project_id agent_type artifact_type artifact_id timestamp
                sequence_number of
           Inl e \<Rightarrow> (data, st, Inl e)
         | Inr object_key \<Rightarrow>
             (let data = dict_set ''sequence_number'' (JInt sequence_number) data
              in case upload_json st data object_key of
                   Inl e \<Rightarrow> (data, st, Inl e)
                 | Inr (st', response) \<Rightarrow>
                     (data, st',
                      Inr [(''response'', JObj response), (''s3_key'', JStr object_key),
                           (''bucket'', JStr (bucket_name st)),
                           (''sequence_number'', JInt sequence_number)])))"

definition download_json :: "s3 \<Rightarrow> string \<Rightarrow> error + dict" where
  "download_json st object_key =
     (if get_ok st
      then (case map_of (objects st) object_key of
              Some data \<Rightarrow> Inr data
            | None \<Rightarrow> Inl (ClientError ''NoSuchKey''))
      else Inl (ClientError ''GetObject''))"

text \<open>Lines 292--302: the pairs \<^verbatim>\<open>(seq_num, key)\<close> of the keys that match the artifact id.\<close>

definition matching_keys :: "string \<Rightarrow> string list \<Rightarrow> (int \<times> string) list" where
  "matching_keys artifact_id keys =
     concat (map (\<lambda>key.
        let filename = filename_of key
        in if sublist (''_'' @ artifact_id @ ''.json'') filename
           then (case seq_of_filename filename of
                   Some seq_num \<Rightarrow> [(seq_num, key)]
                 | None \<Rightarrow> [])
           else []) keys)"

text \<open>
  \<^verbatim>\<open>download_artifact\<close>. The read of the newest match (line 308) stands inside the
  \<^verbatim>\<open>try\<close>: when it fails, the handler of line 313 falls back to sequence number 1
  like a failed listing does. A listing without \<^verbatim>\<open>MaxKeys\<close> returns at most 1000 keys.
  Lines 271--277 read the clock exactly when \<^verbatim>\<open>_format_path\<close> on line 318 will read it
  again (the timestamp is absent, empty or does not parse), so the fallback runs on the
  library after one reading.
\<close>

definition download_artifact ::
  "datetime_api \<Rightarrow> s3 \<Rightarrow> string \<Rightarrow> string \<Rightarrow> string \<Rightarrow> string \<Rightarrow> string option \<Rightarrow> error + dict" where
  "download_artifact dt st project_id agent_type artifact_type artifact_id timestamp =
     (let fallback =
            (case format_path (later dt) project_id agent_type artifact_type artifact_id
                    timestamp 1 of
               Inl e \<Rightarrow> Inl e
             | Inr object_key \<Rightarrow> download_json st object_key)
      in case list_objects_v2 st
                (artifact_prefix (path_year_month dt timestamp) project_id agent_type artifact_type)
                1000 of
           Inl e \<Rightarrow> fallback
         | Inr keys \<Rightarrow>
             (case rev (sort (matching_keys artifact_id keys)) of
                [] \<Rightarrow> fallback
              | (seq_num, object_key) # _ \<Rightarrow>
                  (case download_json st object_key of
                     Inr data \<Rightarrow> Inr data
                   | Inl e \<Rightarrow> fallback)))"

section \<open>JSON text\<close>

text \<open>
  \<^verbatim>\<open>json.dumps\<close> with its default arguments: items separated by a comma and a space,
  keys by a colon and a space, strings escaped to ASCII.
\<close>

definition hex_digit :: "nat \<Rightarrow> char" where
  "hex_digit n = ''0123456789abcdef'' ! n"

definition escape_char :: "char \<Rightarrow> string" where
  "escape_char c =
     (if c = CHR 0x22 then [CHR 0x5C, CHR 0x22]
      else if c = CHR 0x5C then [CHR 0x5C, CHR 0x5C]
      else if c = CHR 0x0A then [CHR 0x5C, CHR ''n'']
      else if c = CHR 0x0D then [CHR 0x5C, CHR ''r'']
      else if c = CHR 0x09 then [CHR 0x5C, CHR ''t'']
      else if c = CHR 0x08 then [CHR 0x5C, CHR ''b'']
      else if c = CHR 0x0C then [CHR 0x5C, CHR ''f'']
      else if (of_char c :: nat) < 32 \<or> 126 < (of_char c :: nat)
      then [CHR 0x5C, CHR ''u'', CHR ''0'', CHR ''0'',
            hex_digit ((of_char c :: nat) div 16), hex_digit ((of_char c :: nat) mod 16)]
      else [c])"

definition dumps_string :: "string \<Rightarrow> string" where
  "dumps_string s = CHR 0x22 # concat (map escape_char s) @ [CHR 0x22]"

text \<open>\<^verbatim>\<open>', '.join(items)\<close>.\<close>

fun join_comma :: "string list \<Rightarrow> string" where
  "join_comma [] = []"
| "join_comma [x] = x"
| "join_comma (x # y # ys) = x @ '', '' @ join_comma (y # ys)"

fun json_dumps :: "json \<Rightarrow> string" where
  "json_dumps JNull = ''null''"
| "json_dumps (JBool b) = (if b then ''true'' else ''false'')"
| "json_dumps (JInt i) = show_int i"
| "json_dumps (JStr s) = dumps_string s"
| "json_dumps (JArr xs) = ''['' @ join_comma (map json_dumps xs) @ '']''"
| "json_dumps (JObj kvs) =
     ''{'' @ join_comma (map (\<lambda>kv. dumps_string (fst kv) @ '': '' @ json_dumps (snd kv)) kvs)
       @ ''}''"

section \<open>The agent base class (\<^verbatim>\<open>agent_base.py\<close>)\<close>

text \<open>
  What an invocation takes from outside the repository: the clock, which the model holds
  still for the time of one invocation (every reading gives the year and month \<open>env_now\<close>
  and the text \<open>env_utcnow\<close>), \<^verbatim>\<open>datetime.fromisoformat\<close>, the identifiers of
  \<^verbatim>\<open>uuid.uuid4()\<close> in the order of the calls, \<^verbatim>\<open>str()\<close> of a value that is not a string,
  \<^verbatim>\<open>json.loads\<close> (\<open>None\<close> is its exception) and the hosted model. The texts of the
  prompts and the fields of the documents an operation builds are pure functions of the
  values the operation has in hand; the model takes them as the functions \<open>env_prompt\<close>
  (which may raise, as string operations on an input of the wrong type do) and
  \<open>env_payload\<close>, applied to the name of the operation and its local values.
\<close>

record env =
  env_now :: "nat \<times> nat"
  env_utcnow :: string
  env_fromisoformat :: "string \<Rightarrow> (nat \<times> nat) option"
  env_uuid4 :: "nat \<Rightarrow> string"
  env_str :: "json \<Rightarrow> string"
  env_json_loads :: "string \<Rightarrow> json option"
  env_invoke_model :: "message list \<Rightarrow> error + response_body"
  env_prompt :: "string \<Rightarrow> dict \<Rightarrow> dict list \<Rightarrow> error + string \<times> string"
  env_payload :: "string \<Rightarrow> string \<Rightarrow> dict \<Rightarrow> dict"

text \<open>The \<^verbatim>\<open>datetime\<close> library as the artifact store sees it during the invocation.\<close>

definition datetime_of :: "env \<Rightarrow> datetime_api" where
  "datetime_of e = \<lparr>dt_now = (\<lambda>k. env_now e), dt_fromisoformat = env_fromisoformat e\<rparr>"

text \<open>A value inside an f-string: a string as it is, anything else through \<^verbatim>\<open>str()\<close>.\<close>

definition fmt :: "env \<Rightarrow> json \<Rightarrow> string" where
  "fmt e v = (case v of JStr s \<Rightarrow> s | _ \<Rightarrow> env_str e v)"

text \<open>
  A record of the state table, as \<^verbatim>\<open>save_state\<close> writes it: the two key attributes and
  optional string attributes.
\<close>

record state_item =
  agentId :: string
  stateId :: string
  agentType :: "string option"
  item_state :: "string option"
  item_memory :: "string option"
  createdAt :: "string option"
  updatedAt :: "string option"

text \<open>
  The agent: its fields, and for each optional client whether \<^verbatim>\<open>__init__\<close> bound it
  (\<^verbatim>\<open>hasattr(self, ...)\<close>). The memory is a JSON value: \<^verbatim>\<open>load_state\<close> assigns whatever
  \<^verbatim>\<open>json.loads\<close> returns.
\<close>

record agent =
  agent_id :: string
  agent_type :: string
  created_at :: string
  state :: string
  memory :: json
  state_db :: bool
  artifacts :: bool
  queue :: bool
  events :: bool

text \<open>The services behind the clients; a flag that is false makes every call raise.\<close>

record world =
  bucket :: s3
  state_table :: "state_item list"
  state_table_ok :: bool
  queue_messages :: "dict list"
  queue_ok :: bool
  bus_events :: "(string \<times> string \<times> dict) list"
  bus_ok :: bool

text \<open>
  A method of the agent: it runs on the agent and the services, returns a value or
  raises, and leaves the agent and the services as they are at that point.
\<close>

type_synonym ctx = "agent \<times> world"

type_synonym 'a act = "ctx \<Rightarrow> (error + 'a) \<times> ctx"

definition return :: "'a \<Rightarrow> 'a act" where
  "return x c = (Inr x, c)"

definition raise :: "error \<Rightarrow> 'a act" where
  "raise e c = (Inl e, c)"

definition bind :: "'a act \<Rightarrow> ('a \<Rightarrow> 'b act) \<Rightarrow> 'b act" where
  "bind m f c = (case m c of (Inl e, c') \<Rightarrow> (Inl e, c') | (Inr x, c') \<Rightarrow> f x c')"

text \<open>\<^verbatim>\<open>try: m  except Exception as e: h(e)\<close>.\<close>

definition try_except :: "'a act \<Rightarrow> (error \<Rightarrow> 'a act) \<Rightarrow> 'a act" where
  "try_except m h c = (case m c of (Inl e, c') \<Rightarrow> h e c' | (Inr x, c') \<Rightarrow> (Inr x, c'))"

definition put_item :: "state_item \<Rightarrow> unit act" where
  "put_item item c =
     (case c of (a, w) \<Rightarrow>
        if state_table_ok w
        then (Inr (),
              (a, w\<lparr>state_table :=
                      filter (\<lambda>i. \<not> (agentId i = agentId item \<and> stateId i = stateId item))
                        (state_table w) @ [item]\<rparr>))
        else (Inl (ClientError ''PutItem''), c))"

text \<open>
  \<^verbatim>\<open>save_state\<close>, and below \<^verbatim>\<open>send_message\<close> and \<^verbatim>\<open>emit_event\<close>, hand \<^verbatim>\<open>json.dumps\<close> of
  the memory, the message and the event detail to the service.
\<close>

definition save_state :: "env \<Rightarrow> unit act" where
  "save_state e c =
     (case c of (a, w) \<Rightarrow>
        if \<not> state_db a then (Inr (), c)
        else if \<not> dumpable (memory a) then (Inl digits_error, c)
        else put_item
               \<lparr>agentId = agent_id a, stateId = env_utcnow e, agentType = Some (agent_type a),
                item_state = Some (state a), item_memory = Some (json_dumps (memory a)),
                createdAt = Some (created_at a), updatedAt = Some (env_utcnow e)\<rparr> c)"

text \<open>
  \<^verbatim>\<open>get_item\<close> by both keys, and the query of \<^verbatim>\<open>load_state\<close>: the records of the agent
  in descending order of \<open>stateId\<close>, at most one.
\<close>

definition get_item :: "state_item list \<Rightarrow> string \<Rightarrow> string \<Rightarrow> state_item option" where
  "get_item items aid sid = find (\<lambda>i. agentId i = aid \<and> stateId i = sid) items"

definition query_latest :: "state_item list \<Rightarrow> string \<Rightarrow> state_item list" where
  "query_latest items aid =
     take 1 (rev (sort_key stateId (filter (\<lambda>i. agentId i = aid) items)))"

text \<open>
  \<^verbatim>\<open>load_state\<close>. The four assignments of lines 116--119 run in order inside the
  \<^verbatim>\<open>try\<close>; \<^verbatim>\<open>json.loads\<close> is the third, and the handler of line 123 returns
  \<^verbatim>\<open>False\<close>. A missing \<^verbatim>\<open>memory\<close> attribute reads as the text \<^verbatim>\<open>[]\<close>, the empty list.
\<close>

definition load_state :: "env \<Rightarrow> string option \<Rightarrow> bool act" where
  "load_state e state_id c =
     (case c of (a, w) \<Rightarrow>
        if \<not> state_db a then (Inr False, c)
        else if \<not> state_table_ok w then (Inr False, c)
        else (case (case state_id of
                      None \<Rightarrow> (case query_latest (state_table w) (agent_id a) of
                                 [] \<Rightarrow> None | item # _ \<Rightarrow> Some item)
                    | Some sid \<Rightarrow>
                        if sid = []
                        then (case query_latest (state_table w) (agent_id a) of
                                [] \<Rightarrow> None | item # _ \<Rightarrow> Some item)
                        else get_item (state_table w) (agent_id a) sid) of
                None \<Rightarrow> (Inr False, c)
              | Some item \<Rightarrow>
                  (let a1 = a\<lparr>agent_type := (case agentType item of
                                                None \<Rightarrow> agent_type a | Some t \<Rightarrow> t)\<rparr>;
                       a2 = a1\<lparr>state := (case item_state item of
                                            None \<Rightarrow> state a1 | Some s \<Rightarrow> s)\<rparr>
                   in case (case item_memory item of
                              None \<Rightarrow> Some (JArr [])
                            | Some m \<Rightarrow> env_json_loads e m) of
                        None \<Rightarrow> (Inr False, (a2, w))
                      | Some mem \<Rightarrow>
                          (Inr True,
                           (a2\<lparr>memory := mem,
                               created_at := (case createdAt item of
                                                None \<Rightarrow> created_at a2 | Some t \<Rightarrow> t)\<rparr>,
                            w)))))"

text \<open>\<^verbatim>\<open>self.memory.append(item)\<close>: only a list has \<^verbatim>\<open>append\<close>.\<close>

definition add_to_memory :: "dict \<Rightarrow> unit act" where
  "add_to_memory item c =
     (case c of (a, w) \<Rightarrow>
        (case memory a of
           JArr xs \<Rightarrow> (Inr (), (a\<lparr>memory := JArr (xs @ [JObj item])\<rparr>, w))
         | _ \<Rightarrow> (Inl (no_attribute (type_name (memory a)) ''append''), c)))"

definition set_state :: "string \<Rightarrow> unit act" where
  "set_state label c = (case c of (a, w) \<Rightarrow> (Inr (), (a\<lparr>state := label\<rparr>, w)))"

definition send_message :: "env \<Rightarrow> string \<Rightarrow> dict \<Rightarrow> unit act" where
  "send_message e recipient_id content c =
     (case c of (a, w) \<Rightarrow>
        if \<not> queue a then (Inr (), c)
        else if \<not> dumpable (JObj content) then (Inl digits_error, c)
        else if queue_ok w
        then (Inr (),
              (a, w\<lparr>queue_messages := queue_messages w @
                      [[(''sender_id'', JStr (agent_id a)), (''recipient_id'', JStr recipient_id),
                        (''content'', JObj content), (''timestamp'', JStr (env_utcnow e))]]\<rparr>))
        else (Inl (ClientError ''SendMessage''), c))"

definition emit_event :: "string \<Rightarrow> dict \<Rightarrow> unit act" where
  "emit_event detail_type detail c =
     (case c of (a, w) \<Rightarrow>
        if \<not> events a then (Inr (), c)
        else (let detail = dict_set ''agent_type'' (JStr (agent_type a))
                             (dict_set ''agent_id'' (JStr (agent_id a)) detail)
              in if \<not> dumpable (JObj detail) then (Inl digits_error, c)
                 else if bus_ok w
                 then (Inr (),
                       (a, w\<lparr>bus_events := bus_events w @
                               [(''agent.'' @ agent_type a, detail_type, detail)]\<rparr>))
                 else (Inl (ClientError ''PutEvents''), c)))"

text \<open>\<^verbatim>\<open>save_artifact\<close> with a dictionary as content.\<close>

definition save_artifact :: "dict \<Rightarrow> string \<Rightarrow> unit act" where
  "save_artifact content key c =
     (case c of (a, w) \<Rightarrow>
        if \<not> artifacts a then (Inr (), c)
        else (case upload_json (bucket w) content key of
                Inl err \<Rightarrow> (Inl err, c)
              | Inr (b, response) \<Rightarrow> (Inr (), (a, w\<lparr>bucket := b\<rparr>))))"

definition ask_llm :: "env \<Rightarrow> message list \<Rightarrow> dict act" where
  "ask_llm e messages c = (invoke_llm (env_invoke_model e) messages, c)"

text \<open>
  The \<^verbatim>\<open>timestamp\<close> an operation passes on is whatever the input holds. The clients test
  it (\<^verbatim>\<open>if not timestamp\<close>) and then call \<^verbatim>\<open>timestamp.replace\<close>, which only a string
  has; the handlers there catch \<^verbatim>\<open>ValueError\<close> and \<^verbatim>\<open>TypeError\<close>, and the
  \<^verbatim>\<open>AttributeError\<close> leaves both \<^verbatim>\<open>upload_artifact\<close> and \<^verbatim>\<open>download_artifact\<close>, before
  any write.
\<close>

definition timestamp_arg :: "json \<Rightarrow> error + string option" where
  "timestamp_arg v =
     (case v of
        JStr s \<Rightarrow> Inr (Some s)
      | _ \<Rightarrow> if truthy v then Inl (no_attribute (type_name v) ''replace'') else Inr None)"

text \<open>
  \<^verbatim>\<open>self.artifacts.upload_artifact(...)\<close> and \<^verbatim>\<open>self.artifacts.download_artifact(...)\<close>;
  \<open>cls\<close> is the name of the class of \<^verbatim>\<open>self\<close>.
\<close>

definition artifacts_upload ::
  "env \<Rightarrow> string \<Rightarrow> dict \<Rightarrow> json \<Rightarrow> string \<Rightarrow> string \<Rightarrow> string \<Rightarrow> json \<Rightarrow> dict act" where
  "artifacts_upload e cls data project_id a_type artifact_type artifact_id timestamp c =
     (case c of (a, w) \<Rightarrow>
        if \<not> artifacts a then (Inl (no_attribute cls ''artifacts''), c)
        else (case timestamp_arg timestamp of
                Inl err \<Rightarrow> (Inl err, c)
              | Inr ts \<Rightarrow>
                  (case upload_artifact (datetime_of e) (bucket w) data (fmt e project_id) a_type
                          artifact_type artifact_id ts of
                     (data', b, Inl err) \<Rightarrow> (Inl err, (a, w\<lparr>bucket := b\<rparr>))
                   | (data', b, Inr artifact_data) \<Rightarrow>
                       (Inr artifact_data, (a, w\<lparr>bucket := b\<rparr>)))))"

definition artifacts_download ::
  "env \<Rightarrow> string \<Rightarrow> json \<Rightarrow> string \<Rightarrow> string \<Rightarrow> json \<Rightarrow> json \<Rightarrow> dict act" where
  "artifacts_download e cls project_id a_type artifact_type artifact_id timestamp c =
     (case c of (a, w) \<Rightarrow>
        if \<not> artifacts a then (Inl (no_attribute cls ''artifacts''), c)
        else (case timestamp_arg timestamp of
                Inl err \<Rightarrow> (Inl err, c)
              | Inr ts \<Rightarrow>
                  (download_artifact (datetime_of e) (bucket w) (fmt e project_id) a_type
                     artifact_type (fmt e artifact_id) ts, c)))"

section \<open>The domain agents\<close>

text \<open>
  The eight agents share one construction and their thirty-one operations one shape: read
  the inputs, check the required ones, load earlier artifacts, ask the model, upload the
  artifact, record memory and state, emit an event, send messages, return. What differs
  from one operation to the next is written down in a record per operation; \<open>run_operation\<close>
  is the shape, in the order of the source.
\<close>

datatype id_default = FreshUuid | EmptyString | FromField string

record operation =
  op_name :: string
  op_class :: string
  op_session_field :: string
  op_session_default :: id_default
  op_required :: "(string \<times> string) list"
  op_guarded :: bool
  op_required_load :: "(string \<times> string \<times> string \<times> string) option"
  op_optional_loads :: "(string \<times> string \<times> string) list"
  op_agent_type :: string
  op_artifact_type :: string
  op_resave :: bool
  op_state :: "string option"
  op_event :: "string option"
  op_recipients :: "string list"

text \<open>
  \<^descr> \<open>op_class\<close>: the class that defines the operation.
  \<^descr> \<open>op_session_field\<close>, \<open>op_session_default\<close>: the correlation id
    (\<^verbatim>\<open>project_id\<close> or \<^verbatim>\<open>session_id\<close>) and the default of its \<^verbatim>\<open>input_data.get\<close>: a new
    uuid, the empty string, or another input field.
  \<^descr> \<open>op_required\<close>: each required input with the message of its \<^verbatim>\<open>ValueError\<close>, in the
    order of the checks.
  \<^descr> \<open>op_guarded\<close>: the part after the checks stands in
    \<^verbatim>\<open>try: ... except Exception as e: return {"status": "failed", "error": str(e)}\<close>.
  \<^descr> \<open>op_required_load\<close>: the id field, agent type and artifact type of an artifact the
    operation must load, and the prefix of the \<^verbatim>\<open>ValueError\<close> it raises when it cannot.
  \<^descr> \<open>op_optional_loads\<close>: the same for artifacts loaded only when their id is given, a
    failure being logged.
  \<^descr> \<open>op_resave\<close>: the second write of the same key through \<^verbatim>\<open>save_artifact\<close>.
  \<^descr> \<open>op_state\<close>: the state label, for the operations that call \<^verbatim>\<open>add_to_memory\<close>, assign
    \<^verbatim>\<open>self.state\<close> and call \<^verbatim>\<open>save_state\<close>; \<open>None\<close> where these three lines are commented
    out.
  \<^descr> \<open>op_event\<close>, \<open>op_recipients\<close>: the detail type of the event emitted and the
    recipients of the messages sent.
\<close>

text \<open>
  The local values of an operation, by name: the input fields, the correlation id and the
  timestamp with their defaults.
\<close>

definition read_inputs :: "env \<Rightarrow> operation \<Rightarrow> dict \<Rightarrow> dict" where
  "read_inputs e op input_data =
     (let session =
            (case map_of input_data (op_session_field op) of
               Some v \<Rightarrow> v
             | None \<Rightarrow>
                 (case op_session_default op of
                    FreshUuid \<Rightarrow> JStr (env_uuid4 e 0)
                  | EmptyString \<Rightarrow> JStr []
                  | FromField f \<Rightarrow> dict_get input_data f (JStr [])));
          timestamp = dict_get input_data ''timestamp'' (JStr (env_utcnow e))
      in dict_set ''timestamp'' timestamp (dict_set (op_session_field op) session input_data))"

text \<open>
  The uuid of the artifact: the second one of the invocation when the default of the
  correlation id has taken the first (Python evaluates the default of \<^verbatim>\<open>get\<close> in any case).
\<close>

definition new_artifact_id :: "env \<Rightarrow> operation \<Rightarrow> string" where
  "new_artifact_id e op =
     env_uuid4 e (case op_session_default op of FreshUuid \<Rightarrow> 1 | _ \<Rightarrow> 0)"

text \<open>
  The checks \<^verbatim>\<open>if not x: raise ValueError(...)\<close>, in order. The default of every required
  field (\<^verbatim>\<open>''\<close>, \<^verbatim>\<open>{}\<close> or \<^verbatim>\<open>[]\<close>) is false like \<^verbatim>\<open>None\<close>.
\<close>

fun first_missing :: "(string \<times> string) list \<Rightarrow> dict \<Rightarrow> string option" where
  "first_missing [] input_data = None"
| "first_missing ((field, message) # rest) input_data =
     (if truthy (dict_get input_data field JNull) then first_missing rest input_data
      else Some message)"

definition load_required :: "env \<Rightarrow> operation \<Rightarrow> dict \<Rightarrow> dict list act" where
  "load_required e op locals =
     (case op_required_load op of
        None \<Rightarrow> return []
      | Some (id_field, a_type, artifact_type, failure) \<Rightarrow>
          try_except
            (bind (artifacts_download e (op_class op)
                     (dict_get locals (op_session_field op) JNull) a_type
                     artifact_type (dict_get locals id_field JNull)
                     (dict_get locals ''timestamp'' JNull))
               (\<lambda>data. return [data]))
            (\<lambda>err. raise (ValueError (failure @ str_of_error err))))"

fun load_optional ::
  "env \<Rightarrow> operation \<Rightarrow> dict \<Rightarrow> (string \<times> string \<times> string) list \<Rightarrow> dict list act" where
  "load_optional e op locals [] = return []"
| "load_optional e op locals ((id_field, a_type, artifact_type) # rest) =
     bind (if truthy (dict_get locals id_field (JStr []))
           then try_except
                  (bind (artifacts_download e (op_class op)
                           (dict_get locals (op_session_field op) JNull) a_type
                           artifact_type (dict_get locals id_field JNull)
                           (dict_get locals ''timestamp'' JNull))
                     (\<lambda>data. return [data]))
                  (\<lambda>err. return [])
           else return [])
       (\<lambda>loaded. bind (load_optional e op locals rest) (\<lambda>more. return (loaded @ more)))"

definition build_messages :: "env \<Rightarrow> operation \<Rightarrow> dict \<Rightarrow> dict list \<Rightarrow> message list act" where
  "build_messages e op locals loaded =
     (case env_prompt e (op_name op) locals loaded of
        Inl err \<Rightarrow> raise err
      | Inr (system_text, user_text) \<Rightarrow>
          return [[(''role'', ''system''), (''content'', system_text)],
                  [(''role'', ''user''), (''content'', user_text)]])"

fun send_messages :: "env \<Rightarrow> string list \<Rightarrow> dict \<Rightarrow> unit act" where
  "send_messages e [] content = return ()"
| "send_messages e (recipient_id # rest) content =
     bind (send_message e recipient_id content) (\<lambda>_. send_messages e rest content)"

text \<open>\<^verbatim>\<open>artifact_data["s3_key"]\<close>.\<close>

definition s3_key_of :: "dict \<Rightarrow> string" where
  "s3_key_of artifact_data = (case map_of artifact_data ''s3_key'' of Some (JStr k) \<Rightarrow> k | _ \<Rightarrow> [])"

text \<open>The part of an operation after its checks.\<close>

definition operation_body :: "env \<Rightarrow> operation \<Rightarrow> dict \<Rightarrow> dict act" where
  "operation_body e op locals =
     bind (load_required e op locals) (\<lambda>required_docs.
     bind (load_optional e op locals (op_optional_loads op)) (\<lambda>optional_docs.
     bind (build_messages e op locals (required_docs @ optional_docs)) (\<lambda>messages.
     bind (ask_llm e messages) (\<lambda>response.
     (let locals = dict_set ''content'' (dict_get response ''content'' (JStr [])) locals;
          locals = dict_set ''artifact_id'' (JStr (new_artifact_id e op)) locals
      in
     bind (artifacts_upload e (op_class op)
             (env_payload e (op_name op) ''artifact'' locals)
             (dict_get locals (op_session_field op) JNull) (op_agent_type op)
             (op_artifact_type op) (new_artifact_id e op)
             (dict_get locals ''timestamp'' JNull)) (\<lambda>artifact_data.
     (let locals = dict_set ''s3_key'' (JStr (s3_key_of artifact_data)) locals
      in
     bind (if op_resave op
           then save_artifact (env_payload e (op_name op) ''resave'' locals)
                  (s3_key_of artifact_data)
           else return ()) (\<lambda>_.
     bind (case op_state op of
             None \<Rightarrow> return ()
           | Some label \<Rightarrow>
               bind (add_to_memory (env_payload e (op_name op) ''memory'' locals)) (\<lambda>_.
               bind (set_state label) (\<lambda>_.
               save_state e))) (\<lambda>_.
     bind (case op_event op of
             None \<Rightarrow> return ()
           | Some detail_type \<Rightarrow>
               emit_event detail_type (env_payload e (op_name op) ''event'' locals)) (\<lambda>_.
     bind (send_messages e (op_recipients op) (env_payload e (op_name op) ''message'' locals))
       (\<lambda>_.
     return ((''status'', JStr ''success'')
             # env_payload e (op_name op) ''result'' locals))))))))))))"

definition failed :: "error \<Rightarrow> dict" where
  "failed err = [(''status'', JStr ''failed''), (''error'', JStr (str_of_error err))]"

definition run_operation :: "env \<Rightarrow> operation \<Rightarrow> dict \<Rightarrow> dict act" where
  "run_operation e op input_data =
     (case first_missing (op_required op) input_data of
        Some message \<Rightarrow> raise (ValueError message)
      | None \<Rightarrow>
          if op_guarded op
          then try_except (operation_body e op (read_inputs e op input_data))
                 (\<lambda>err. return (failed err))
          else operation_body e op (read_inputs e op input_data))"

subsection \<open>The operations\<close>

text \<open>\<^verbatim>\<open>ProductManager.analyze_requirement\<close> (\<^verbatim>\<open>product-manager/index.py, lines 80-164\<close>).\<close>

definition analyze_requirement :: operation where
  "analyze_requirement =
     \<lparr>op_name = ''analyze_requirement'',
      op_class = ''ProductManager'',
      op_session_field = ''project_id'', op_session_default = FreshUuid,
      op_required = [(''requirement'', ''Requirement is required'')],
      op_guarded = True,
      op_required_load = None,
      op_optional_loads = [],
      op_agent_type = ''product_manager'', op_artifact_type = ''analysis'',
      op_resave = False,
      op_state = Some ''analysis_completed'',
      op_event = Some ''RequirementAnalysisCompleted'',
      op_recipients = []\<rparr>"

text \<open>\<^verbatim>\<open>ProductManager.create_user_stories\<close> (\<^verbatim>\<open>product-manager/index.py, lines 166-285\<close>).\<close>

definition create_user_stories :: operation where
  "create_user_stories =
     \<lparr>op_name = ''create_user_stories'',
      op_class = ''ProductManager'',
      op_session_field = ''project_id'', op_session_default = FreshUuid,
      op_required = [(''requirement'', ''Requirement is required'')],
      op_guarded = False,
      op_required_load = None,
      op_optional_loads = [(''analysis_id'', ''product_manager'', ''analysis'')],
      op_agent_type = ''product_manager'', op_artifact_type = ''user_stories'',
      op_resave = True,
      op_state = Some ''user_stories_created'',
      op_event = Some ''UserStoriesCreated'',
      op_recipients = [''architect'']\<rparr>"

text \<open>\<^verbatim>\<open>ProductManager.create_competitive_analysis\<close> (\<^verbatim>\<open>product-manager/index.py, lines 287-364\<close>).\<close>

definition create_competitive_analysis :: operation where
  "create_competitive_analysis =
     \<lparr>op_name = ''create_competitive_analysis'',
      op_class = ''ProductManager'',
      op_session_field = ''project_id'', op_session_default = FreshUuid,
      op_required = [(''requirement'', ''Requirement is required'')],
      op_guarded = False,
      op_required_load = None,
      op_optional_loads = [],
      op_agent_type = ''product_manager'', op_artifact_type = ''competitive_analysis'',
      op_resave = False,
      op_state = Some ''competitive_analysis_created'',
      op_event = Some ''CompetitiveAnalysisCreated'',
      op_recipients = []\<rparr>"

text \<open>\<^verbatim>\<open>ProductManager.create_product_requirement_doc\<close> (\<^verbatim>\<open>product-manager/index.py, lines 366-502\<close>).\<close>

definition create_product_requirement_doc :: operation where
  "create_product_requirement_doc =
     \<lparr>op_name = ''create_product_requirement_doc'',
      op_class = ''ProductManager'',
      op_session_field = ''project_id'', op_session_default = FreshUuid,
      op_required = [(''requirement'', ''Requirement is required'')],
      op_guarded = False,
      op_required_load = None,
      op_optional_loads = [(''stories_id'', ''product_manager'', ''user_stories''),
                           (''competitive_analysis_id'', ''product_manager'', ''competitive_analysis'')],
      op_agent_type = ''product_manager'', op_artifact_type = ''prd'',
      op_resave = False,
      op_state = Some ''prd_created'',
      op_event = Some ''ProductRequirementDocCreated'',
      op_recipients = [''architect'', ''project_manager'']\<rparr>"

text \<open>\<^verbatim>\<open>Architect.create_architecture\<close> (\<^verbatim>\<open>architect/index.py, lines 73-180\<close>).\<close>

definition create_architecture :: operation where
  "create_architecture =
     \<lparr>op_name = ''create_architecture'',
      op_class = ''Architect'',
      op_session_field = ''project_id'', op_session_default = FreshUuid,
      op_required = [(''requirement'', ''Requirement is required'')],
      op_guarded = False,
      op_required_load = None,
      op_optional_loads = [(''prd_id'', ''product_manager'', ''prd'')],
      op_agent_type = ''architect'', op_artifact_type = ''architecture'',
      op_resave = False,
      op_state = Some ''architecture_created'',
      op_event = Some ''ArchitectureCreated'',
      op_recipients = [''engineer'']\<rparr>"

text \<open>\<^verbatim>\<open>Architect.create_class_diagram\<close> (\<^verbatim>\<open>architect/index.py, lines 182-262\<close>).\<close>

definition create_class_diagram :: operation where
  "create_class_diagram =
     \<lparr>op_name = ''create_class_diagram'',
      op_class = ''Architect'',
      op_session_field = ''project_id'', op_session_default = EmptyString,
      op_required = [(''architecture_id'', ''Architecture ID is required''),
                     (''project_id'', ''Project ID is required'')],
      op_guarded = False,
      op_required_load = Some (''architecture_id'', ''architect'', ''architecture'',
                               ''Failed to load architecture: ''),
      op_optional_loads = [],
      op_agent_type = ''architect'', op_artifact_type = ''class_diagram'',
      op_resave = False,
      op_state = Some ''class_diagram_created'',
      op_event = None,
      op_recipients = []\<rparr>"

text \<open>\<^verbatim>\<open>Architect.create_sequence_diagram\<close> (\<^verbatim>\<open>architect/index.py, lines 264-350\<close>).\<close>

definition create_sequence_diagram :: operation where
  "create_sequence_diagram =
     \<lparr>op_name = ''create_sequence_diagram'',
      op_class = ''Architect'',
      op_session_field = ''project_id'', op_session_default = EmptyString,
      op_required = [(''architecture_id'', ''Architecture ID is required''),
                     (''use_case'', ''Use case is required''),
                     (''project_id'', ''Project ID is required'')],
      op_guarded = False,
      op_required_load = Some (''architecture_id'', ''architect'', ''architecture'',
                               ''Failed to load architecture: ''),
      op_optional_loads = [],
      op_agent_type = ''architect'', op_artifact_type = ''sequence_diagram'',
      op_resave = False,
      op_state = Some ''sequence_diagram_created'',
      op_event = None,
      op_recipients = []\<rparr>"

text \<open>\<^verbatim>\<open>Architect.create_api_design\<close> (\<^verbatim>\<open>architect/index.py, lines 352-432\<close>).\<close>

definition create_api_design :: operation where
  "create_api_design =
     \<lparr>op_name = ''create_api_design'',
      op_class = ''Architect'',
      op_session_field = ''project_id'', op_session_default = EmptyString,
      op_required = [(''architecture_id'', ''Architecture ID is required''),
                     (''project_id'', ''Project ID is required'')],
      op_guarded = False,
      op_required_load = Some (''architecture_id'', ''architect'', ''architecture'',
                               ''Failed to load architecture: ''),
      op_optional_loads = [],
      op_agent_type = ''architect'', op_artifact_type = ''api_design'',
      op_resave = False,
      op_state = Some ''api_design_created'',
      op_event = None,
      op_recipients = []\<rparr>"

text \<open>\<^verbatim>\<open>Engineer.implement_code\<close> (\<^verbatim>\<open>engineer/index.py, lines 80-190\<close>).\<close>

definition implement_code :: operation where
  "implement_code =
     \<lparr>op_name = ''implement_code'',
      op_class = ''Engineer'',
      op_session_field = ''project_id'', op_session_default = FreshUuid,
      op_required = [(''requirement'', ''Requirement is required'')],
      op_guarded = False,
      op_required_load = None,
      op_optional_loads = [(''prd_id'', ''product_manager'', ''prd''),
                           (''architecture_id'', ''architect'', ''architecture'')],
      op_agent_type = ''engineer'', op_artifact_type = ''implementation'',
      op_resave = False,
      op_state = Some ''code_implemented'',
      op_event = Some ''CodeImplemented'',
      op_recipients = []\<rparr>"

text \<open>\<^verbatim>\<open>Engineer.review_code\<close> (\<^verbatim>\<open>engineer/index.py, lines 192-288\<close>).\<close>

definition review_code :: operation where
  "review_code =
     \<lparr>op_name = ''review_code'',
      op_class = ''Engineer'',
      op_session_field = ''project_id'', op_session_default = EmptyString,
      op_required = [(''implementation_id'', ''Implementation ID is required''),
                     (''project_id'', ''Project ID is required'')],
      op_guarded = False,
      op_required_load = Some (''implementation_id'', ''engineer'', ''implementation'',
                               ''Failed to load implementation: ''),
      op_optional_loads = [],
      op_agent_type = ''engineer'', op_artifact_type = ''review'',
      op_resave = False,
      op_state = Some ''code_reviewed'',
      op_event = Some ''CodeReviewed'',
      op_recipients = []\<rparr>"

text \<open>\<^verbatim>\<open>Engineer.fix_bugs\<close> (\<^verbatim>\<open>engineer/index.py, lines 290-402\<close>).\<close>

definition fix_bugs :: operation where
  "fix_bugs =
     \<lparr>op_name = ''fix_bugs'',
      op_class = ''Engineer'',
      op_session_field = ''project_id'', op_session_default = EmptyString,
      op_required = [(''implementation_id'', ''Implementation ID is required''),
                     (''project_id'', ''Project ID is required'')],
      op_guarded = False,
      op_required_load = Some (''implementation_id'', ''engineer'', ''implementation'',
                               ''Failed to load implementation: ''),
      op_optional_loads = [(''review_id'', ''engineer'', ''review'')],
      op_agent_type = ''engineer'', op_artifact_type = ''fixed_implementation'',
      op_resave = False,
      op_state = Some ''bugs_fixed'',
      op_event = Some ''BugsFixed'',
      op_recipients = []\<rparr>"

text \<open>\<^verbatim>\<open>CloudArchitect.design_cloud_architecture\<close> (\<^verbatim>\<open>cloud-architect/index.py, lines 84-177\<close>).\<close>

definition design_cloud_architecture :: operation where
  "design_cloud_architecture =
     \<lparr>op_name = ''design_cloud_architecture'',
      op_class = ''CloudArchitect'',
      op_session_field = ''project_id'', op_session_default = FreshUuid,
      op_required = [(''requirement'', ''Requirement is required'')],
      op_guarded = False,
      op_required_load = None,
      op_optional_loads = [],
      op_agent_type = ''cloud_architect'', op_artifact_type = ''cloud_architecture'',
      op_resave = False,
      op_state = Some ''cloud_architecture_created'',
      op_event = Some ''CloudArchitectureCreated'',
      op_recipients = []\<rparr>"

text \<open>\<^verbatim>\<open>CloudArchitect.evaluate_architecture\<close> (\<^verbatim>\<open>cloud-architect/index.py, lines 179-290\<close>).\<close>

definition evaluate_architecture :: operation where
  "evaluate_architecture =
     \<lparr>op_name = ''evaluate_architecture'',
      op_class = ''CloudArchitect'',
      op_session_field = ''project_id'', op_session_default = EmptyString,
      op_required = [(''architecture_id'', ''Architecture ID is required''),
                     (''project_id'', ''Project ID is required'')],
      op_guarded = False,
      op_required_load = Some (''architecture_id'', ''cloud_architect'', ''cloud_architecture'',
                               ''Failed to load cloud architecture: ''),
      op_optional_loads = [],
      op_agent_type = ''cloud_architect'', op_artifact_type = ''architecture_evaluation'',
      op_resave = False,
      op_state = Some ''architecture_evaluated'',
      op_event = Some ''ArchitectureEvaluationCompleted'',
      op_recipients = []\<rparr>"

text \<open>\<^verbatim>\<open>CloudArchitect.create_infrastructure_diagram\<close> (\<^verbatim>\<open>cloud-architect/index.py, lines 292-388\<close>).\<close>

definition create_infrastructure_diagram :: operation where
  "create_infrastructure_diagram =
     \<lparr>op_name = ''create_infrastructure_diagram'',
      op_class = ''CloudArchitect'',
      op_session_field = ''project_id'', op_session_default = EmptyString,
      op_required = [(''architecture_id'', ''Architecture ID is required''),
                     (''project_id'', ''Project ID is required'')],
      op_guarded = False,
      op_required_load = Some (''architecture_id'', ''cloud_architect'', ''cloud_architecture'',
                               ''Failed to load cloud architecture: ''),
      op_optional_loads = [],
      op_agent_type = ''cloud_architect'', op_artifact_type = ''infrastructure_diagram'',
      op_resave = False,
      op_state = Some ''infrastructure_diagram_created'',
      op_event = None,
      op_recipients = []\<rparr>"

text \<open>\<^verbatim>\<open>CloudArchitect.optimize_cost\<close> (\<^verbatim>\<open>cloud-architect/index.py, lines 390-491\<close>).\<close>

definition optimize_cost :: operation where
  "optimize_cost =
     \<lparr>op_name = ''optimize_cost'',
      op_class = ''CloudArchitect'',
      op_session_field = ''project_id'', op_session_default = EmptyString,
      op_required = [(''architecture_id'', ''Architecture ID is required''),
                     (''project_id'', ''Project ID is required'')],
      op_guarded = False,
      op_required_load = Some (''architecture_id'', ''cloud_architect'', ''cloud_architecture'',
                               ''Failed to load cloud architecture: ''),
      op_optional_loads = [],
      op_agent_type = ''cloud_architect'', op_artifact_type = ''cost_optimization'',
      op_resave = False,
      op_state = Some ''cost_optimization_completed'',
      op_event = None,
      op_recipients = []\<rparr>"

text \<open>\<^verbatim>\<open>CloudArchitect.design_disaster_recovery\<close> (\<^verbatim>\<open>cloud-architect/index.py, lines 493-603\<close>).\<close>

definition design_disaster_recovery :: operation where
  "design_disaster_recovery =
     \<lparr>op_name = ''design_disaster_recovery'',
      op_class = ''CloudArchitect'',
      op_session_field = ''project_id'', op_session_default = EmptyString,
      op_required = [(''architecture_id'', ''Architecture ID is required''),
                     (''project_id'', ''Project ID is required'')],
      op_guarded = False,
      op_required_load = Some (''architecture_id'', ''cloud_architect'', ''cloud_architecture'',
                               ''Failed to load cloud architecture: ''),
      op_optional_loads = [],
      op_agent_type = ''cloud_architect'', op_artifact_type = ''disaster_recovery'',
      op_resave = False,
      op_state = Some ''disaster_recovery_designed'',
      op_event = None,
      op_recipients = []\<rparr>"

text \<open>\<^verbatim>\<open>CloudArchitect.analyze_cfn_failure\<close> (\<^verbatim>\<open>cloud-architect/index.py, lines 605-730\<close>).\<close>

definition analyze_cfn_failure :: operation where
  "analyze_cfn_failure =
     \<lparr>op_name = ''analyze_cfn_failure'',
      op_class = ''CloudArchitect'',
      op_session_field = ''project_id'', op_session_default = FromField ''stackId'',
      op_required = [(''stackId'', ''Stack ID is required''),
                     (''stackName'', ''Stack Name is required'')],
      op_guarded = False,
      op_required_load = None,
      op_optional_loads = [],
      op_agent_type = ''cloud_architect'', op_artifact_type = ''cfn_failure_analysis'',
      op_resave = False,
      op_state = Some ''cfn_failure_analyzed'',
      op_event = Some ''CfnFailureAnalysisCompleted'',
      op_recipients = []\<rparr>"

text \<open>\<^verbatim>\<open>ServerlessArchitect.design_serverless_architecture\<close> (\<^verbatim>\<open>serverless-architect/index.py, lines 82-174\<close>).\<close>

definition design_serverless_architecture :: operation where
  "design_serverless_architecture =
     \<lparr>op_name = ''design_serverless_architecture'',
      op_class = ''ServerlessArchitect'',
      op_session_field = ''project_id'', op_session_default = FreshUuid,
      op_required = [(''requirement'', ''Requirement is required'')],
      op_guarded = False,
      op_required_load = None,
      op_optional_loads = [],
      op_agent_type = ''serverless_architect'', op_artifact_type = ''serverless_architecture'',
      op_resave = False,
      op_state = Some ''serverless_architecture_created'',
      op_event = Some ''ServerlessArchitectureCreated'',
      op_recipients = []\<rparr>"

text \<open>\<^verbatim>\<open>ServerlessArchitect.design_event_driven_architecture\<close> (\<^verbatim>\<open>serverless-architect/index.py, lines 176-268\<close>).\<close>

definition design_event_driven_architecture :: operation where
  "design_event_driven_architecture =
     \<lparr>op_name = ''design_event_driven_architecture'',
      op_class = ''ServerlessArchitect'',
      op_session_field = ''project_id'', op_session_default = FreshUuid,
      op_required = [(''requirement'', ''Requirement is required'')],
      op_guarded = False,
      op_required_load = None,
      op_optional_loads = [],
      op_agent_type = ''serverless_architect'', op_artifact_type = ''event_architecture'',
      op_resave = False,
      op_state = Some ''event_architecture_created'',
      op_event = Some ''EventDrivenArchitectureCreated'',
      op_recipients = []\<rparr>"

text \<open>\<^verbatim>\<open>ServerlessArchitect.design_api_gateway\<close> (\<^verbatim>\<open>serverless-architect/index.py, lines 270-367\<close>).\<close>

definition design_api_gateway :: operation where
  "design_api_gateway =
     \<lparr>op_name = ''design_api_gateway'',
      op_class = ''ServerlessArchitect'',
      op_session_field = ''project_id'', op_session_default = FreshUuid,
      op_required = [(''requirement'', ''Requirement is required'')],
      op_guarded = False,
      op_required_load = None,
      op_optional_loads = [],
      op_agent_type = ''serverless_architect'', op_artifact_type = ''api_design'',
      op_resave = False,
      op_state = Some ''api_design_created'',
      op_event = Some ''ApiGatewayDesignCreated'',
      op_recipients = []\<rparr>"

text \<open>\<^verbatim>\<open>ServerlessArchitect.optimize_lambda_functions\<close> (\<^verbatim>\<open>serverless-architect/index.py, lines 369-452\<close>).\<close>

definition optimize_lambda_functions :: operation where
  "optimize_lambda_functions =
     \<lparr>op_name = ''optimize_lambda_functions'',
      op_class = ''ServerlessArchitect'',
      op_session_field = ''project_id'', op_session_default = FreshUuid,
      op_required = [(''function_code'', ''Function code is required''),
                     (''runtime'', ''Runtime is required'')],
      op_guarded = False,
      op_required_load = None,
      op_optional_loads = [],
      op_agent_type = ''serverless_architect'', op_artifact_type = ''lambda_optimization'',
      op_resave = False,
      op_state = Some ''lambda_optimization_created'',
      op_event = None,
      op_recipients = []\<rparr>"

text \<open>\<^verbatim>\<open>ServerlessArchitect.design_step_functions_workflow\<close> (\<^verbatim>\<open>serverless-architect/index.py, lines 454-550\<close>).\<close>

definition design_step_functions_workflow :: operation where
  "design_step_functions_workflow =
     \<lparr>op_name = ''design_step_functions_workflow'',
      op_class = ''ServerlessArchitect'',
      op_session_field = ''project_id'', op_session_default = FreshUuid,
      op_required = [(''requirement'', ''Requirement is required'')],
      op_guarded = False,
      op_required_load = None,
      op_optional_loads = [],
      op_agent_type = ''serverless_architect'', op_artifact_type = ''step_functions_workflow'',
      op_resave = False,
      op_state = Some ''step_functions_workflow_created'',
      op_event = Some ''StepFunctionsWorkflowCreated'',
      op_recipients = []\<rparr>"

text \<open>\<^verbatim>\<open>PropertyTargetAgent.set_target_properties\<close> (\<^verbatim>\<open>property_target/index.py, lines 78-209\<close>).\<close>

definition set_target_properties :: operation where
  "set_target_properties =
     \<lparr>op_name = ''set_target_properties'',
      op_class = ''PropertyTargetAgent'',
      op_session_field = ''session_id'', op_session_default = FreshUuid,
      op_required = [(''requirements'', ''Requirements are required'')],
      op_guarded = True,
      op_required_load = None,
      op_optional_loads = [],
      op_agent_type = ''property_target'', op_artifact_type = ''target_properties'',
      op_resave = False,
      op_state = None,
      op_event = Some ''TargetPropertiesSet'',
      op_recipients = []\<rparr>"

text \<open>\<^verbatim>\<open>PropertyTargetAgent.analyze_tradeoffs\<close> (\<^verbatim>\<open>property_target/index.py, lines 211-333\<close>).\<close>

definition analyze_tradeoffs :: operation where
  "analyze_tradeoffs =
     \<lparr>op_name = ''analyze_tradeoffs'',
      op_class = ''PropertyTargetAgent'',
      op_session_field = ''session_id'', op_session_default = FreshUuid,
      op_required = [(''target_properties'', ''Target properties are required'')],
      op_guarded = True,
      op_required_load = None,
      op_optional_loads = [],
      op_agent_type = ''property_target'', op_artifact_type = ''tradeoff_analysis'',
      op_resave = False,
      op_state = None,
      op_event = None,
      op_recipients = []\<rparr>"

text \<open>\<^verbatim>\<open>PropertyTargetAgent.validate_targets\<close> (\<^verbatim>\<open>property_target/index.py, lines 335-401\<close>).\<close>

definition validate_targets :: operation where
  "validate_targets =
     \<lparr>op_name = ''validate_targets'',
      op_class = ''PropertyTargetAgent'',
      op_session_field = ''session_id'', op_session_default = FreshUuid,
      op_required = [(''target_properties'', ''Target properties are required'')],
      op_guarded = True,
      op_required_load = None,
      op_optional_loads = [],
      op_agent_type = ''property_target'', op_artifact_type = ''validation_result'',
      op_resave = False,
      op_state = None,
      op_event = None,
      op_recipients = []\<rparr>"

text \<open>\<^verbatim>\<open>InverseDesignAgent.design_materials\<close> (\<^verbatim>\<open>inverse_design/index.py, lines 78-217\<close>).\<close>

definition design_materials :: operation where
  "design_materials =
     \<lparr>op_name = ''design_materials'',
      op_class = ''InverseDesignAgent'',
      op_session_field = ''session_id'', op_session_default = FreshUuid,
      op_required = [(''target_properties'', ''Target properties are required'')],
      op_guarded = True,
      op_required_load = None,
      op_optional_loads = [],
      op_agent_type = ''inverse_design'', op_artifact_type = ''candidate_materials'',
      op_resave = False,
      op_state = None,
      op_event = Some ''MaterialsDesigned'',
      op_recipients = []\<rparr>"

text \<open>\<^verbatim>\<open>InverseDesignAgent.rank_candidates\<close> (\<^verbatim>\<open>inverse_design/index.py, lines 219-357\<close>).\<close>

definition rank_candidates :: operation where
  "rank_candidates =
     \<lparr>op_name = ''rank_candidates'',
      op_class = ''InverseDesignAgent'',
      op_session_field = ''session_id'', op_session_default = FreshUuid,
      op_required = [(''candidate_materials'', ''Candidate materials are required'')],
      op_guarded = True,
      op_required_load = None,
      op_optional_loads = [],
      op_agent_type = ''inverse_design'', op_artifact_type = ''ranked_materials'',
      op_resave = False,
      op_state = None,
      op_event = None,
      op_recipients = []\<rparr>"

text \<open>\<^verbatim>\<open>InverseDesignAgent.evaluate_feasibility\<close> (\<^verbatim>\<open>inverse_design/index.py, lines 359-486\<close>).\<close>

definition evaluate_feasibility :: operation where
  "evaluate_feasibility =
     \<lparr>op_name = ''evaluate_feasibility'',
      op_class = ''InverseDesignAgent'',
      op_session_field = ''session_id'', op_session_default = FreshUuid,
      op_required = [(''material'', ''Material is required'')],
      op_guarded = True,
      op_required_load = None,
      op_optional_loads = [],
      op_agent_type = ''inverse_design'', op_artifact_type = ''feasibility_evaluation'',
      op_resave = False,
      op_state = None,
      op_event = None,
      op_recipients = []\<rparr>"

text \<open>\<^verbatim>\<open>ExperimentPlanningAgent.create_experiment_plan\<close> (\<^verbatim>\<open>experiment_planning/index.py, lines 78-234\<close>).\<close>

definition create_experiment_plan :: operation where
  "create_experiment_plan =
     \<lparr>op_name = ''create_experiment_plan'',
      op_class = ''ExperimentPlanningAgent'',
      op_session_field = ''session_id'', op_session_default = FreshUuid,
      op_required = [(''materials'', ''Materials are required''),
                     (''target_properties'', ''Target properties are required'')],
      op_guarded = True,
      op_required_load = None,
      op_optional_loads = [],
      op_agent_type = ''experiment_planning'', op_artifact_type = ''experiment_plan'',
      op_resave = False,
      op_state = None,
      op_event = Some ''ExperimentPlanCreated'',
      op_recipients = []\<rparr>"

text \<open>\<^verbatim>\<open>ExperimentPlanningAgent.optimize_conditions\<close> (\<^verbatim>\<open>experiment_planning/index.py, lines 236-379\<close>).\<close>

definition optimize_conditions :: operation where
  "optimize_conditions =
     \<lparr>op_name = ''optimize_conditions'',
      op_class = ''ExperimentPlanningAgent'',
      op_session_field = ''session_id'', op_session_default = FreshUuid,
      op_required = [(''experiment'', ''Experiment is required'')],
      op_guarded = True,
      op_required_load = None,
      op_optional_loads = [],
      op_agent_type = ''experiment_planning'', op_artifact_type = ''optimized_conditions'',
      op_resave = False,
      op_state = None,
      op_event = None,
      op_recipients = []\<rparr>"

text \<open>\<^verbatim>\<open>ExperimentPlanningAgent.estimate_resources\<close> (\<^verbatim>\<open>experiment_planning/index.py, lines 381-521\<close>).\<close>

definition estimate_resources :: operation where
  "estimate_resources =
     \<lparr>op_name = ''estimate_resources'',
      op_class = ''ExperimentPlanningAgent'',
      op_session_field = ''session_id'', op_session_default = FreshUuid,
      op_required = [(''experiment_plan'', ''Experiment plan is required'')],
      op_guarded = True,
      op_required_load = None,
      op_optional_loads = [],
      op_agent_type = ''experiment_planning'', op_artifact_type = ''resource_estimate'',
      op_resave = False,
      op_state = None,
      op_event = None,
      op_recipients = []\<rparr>"

subsection \<open>The agents and their \<^verbatim>\<open>process\<close>\<close>

record domain_agent =
  da_type :: string
  da_default :: string
  da_operations :: "operation list"
  da_guarded :: bool

text \<open>\<^verbatim>\<open>ProductManager.process\<close> (\<^verbatim>\<open>product-manager/index.py, lines 47-78\<close>).\<close>

definition product_manager :: domain_agent where
  "product_manager =
     \<lparr>da_type = ''product_manager'', da_default = ''analyze_requirement'',
      da_operations = [analyze_requirement,
                       create_user_stories,
                       create_competitive_analysis,
                       create_product_requirement_doc],
      da_guarded = True\<rparr>"

text \<open>\<^verbatim>\<open>Architect.process\<close> (\<^verbatim>\<open>architect/index.py, lines 47-71\<close>): the only one whose dispatch stands outside a \<^verbatim>\<open>try\<close>.\<close>

definition architect :: domain_agent where
  "architect =
     \<lparr>da_type = ''architect'', da_default = ''create_architecture'',
      da_operations = [create_architecture,
                       create_class_diagram,
                       create_sequence_diagram,
                       create_api_design],
      da_guarded = False\<rparr>"

text \<open>\<^verbatim>\<open>Engineer.process\<close> (\<^verbatim>\<open>engineer/index.py, lines 49-78\<close>).\<close>

definition engineer :: domain_agent where
  "engineer =
     \<lparr>da_type = ''engineer'', da_default = ''implement_code'',
      da_operations = [implement_code,
                       review_code,
                       fix_bugs],
      da_guarded = True\<rparr>"

text \<open>\<^verbatim>\<open>CloudArchitect.process\<close> (\<^verbatim>\<open>cloud-architect/index.py, lines 47-82\<close>).\<close>

definition cloud_architect :: domain_agent where
  "cloud_architect =
     \<lparr>da_type = ''cloud_architect'', da_default = ''design_cloud_architecture'',
      da_operations = [design_cloud_architecture,
                       evaluate_architecture,
                       create_infrastructure_diagram,
                       optimize_cost,
                       design_disaster_recovery,
                       analyze_cfn_failure],
      da_guarded = True\<rparr>"

text \<open>\<^verbatim>\<open>ServerlessArchitect.process\<close> (\<^verbatim>\<open>serverless-architect/index.py, lines 47-80\<close>).\<close>

definition serverless_architect :: domain_agent where
  "serverless_architect =
     \<lparr>da_type = ''serverless_architect'', da_default = ''design_serverless_architecture'',
      da_operations = [design_serverless_architecture,
                       design_event_driven_architecture,
                       design_api_gateway,
                       optimize_lambda_functions,
                       design_step_functions_workflow],
      da_guarded = True\<rparr>"

text \<open>\<^verbatim>\<open>PropertyTargetAgent.process\<close> (\<^verbatim>\<open>property_target/index.py, lines 47-76\<close>).\<close>

definition property_target :: domain_agent where
  "property_target =
     \<lparr>da_type = ''property_target'', da_default = ''set_target_properties'',
      da_operations = [set_target_properties,
                       analyze_tradeoffs,
                       validate_targets],
      da_guarded = True\<rparr>"

text \<open>\<^verbatim>\<open>InverseDesignAgent.process\<close> (\<^verbatim>\<open>inverse_design/index.py, lines 47-76\<close>).\<close>

definition inverse_design :: domain_agent where
  "inverse_design =
     \<lparr>da_type = ''inverse_design'', da_default = ''design_materials'',
      da_operations = [design_materials,
                       rank_candidates,
                       evaluate_feasibility],
      da_guarded = True\<rparr>"

text \<open>\<^verbatim>\<open>ExperimentPlanningAgent.process\<close> (\<^verbatim>\<open>experiment_planning/index.py, lines 47-76\<close>).\<close>

definition experiment_planning :: domain_agent where
  "experiment_planning =
     \<lparr>da_type = ''experiment_planning'', da_default = ''create_experiment_plan'',
      da_operations = [create_experiment_plan,
                       optimize_conditions,
                       estimate_resources],
      da_guarded = True\<rparr>"

definition domain_agents :: "domain_agent list" where
  "domain_agents =
     [product_manager, architect, engineer, cloud_architect, serverless_architect,
      property_target, inverse_design, experiment_planning]"

definition materials_agents :: "domain_agent list" where
  "materials_agents = [property_target, inverse_design, experiment_planning]"

text \<open>
  \<^verbatim>\<open>process\<close>: the chain of \<^verbatim>\<open>if process_type == ...\<close> is the first operation of that
  name.
\<close>

definition dispatch :: "env \<Rightarrow> domain_agent \<Rightarrow> dict \<Rightarrow> dict act" where
  "dispatch e da input_data =
     (let process_type = dict_get input_data ''process_type'' (JStr (da_default da))
      in case find (\<lambda>op. JStr (op_name op) = process_type) (da_operations da) of
           Some op \<Rightarrow> run_operation e op input_data
         | None \<Rightarrow> raise (ValueError (''Unknown process type: '' @ fmt e process_type)))"

definition process :: "env \<Rightarrow> domain_agent \<Rightarrow> dict \<Rightarrow> dict act" where
  "process e da input_data =
     (if da_guarded da
      then try_except (dispatch e da input_data) (\<lambda>err. return (failed err))
      else dispatch e da input_data)"

section \<open>The CloudFormation event parser (\<^verbatim>\<open>cfn-event-parser/index.py\<close>)\<close>




















section \<open>The tables of the specification\<close>

text \<open>
  The required inputs of each operation, as the tables of sections 4.4 to 4.12 of the
  specification list them under \<^emph>\<open>Required input\<close>. The properties of required-field
  validation compare the checks of the source, \<open>op_required\<close>, with this table.
\<close>

definition spec_required_inputs :: "string \<Rightarrow> string list" where
  "spec_required_inputs name =
     dict_get
       [(''analyze_requirement'', [''requirement'']),
        (''create_user_stories'', [''requirement'']),
        (''create_competitive_analysis'', [''requirement'']),
        (''create_product_requirement_doc'', [''requirement'']),
        (''create_architecture'', [''requirement'']),
        (''create_class_diagram'', [''architecture_id'', ''project_id'']),
        (''create_sequence_diagram'', [''architecture_id'', ''project_id'', ''use_case'']),
        (''create_api_design'', [''architecture_id'', ''project_id'']),
        (''implement_code'', [''requirement'']),
        (''review_code'', [''implementation_id'', ''project_id'']),
        (''fix_bugs'', [''implementation_id'', ''project_id'']),
        (''design_cloud_architecture'', [''requirement'']),
        (''evaluate_architecture'', [''architecture_id'', ''project_id'']),
        (''create_infrastructure_diagram'', [''architecture_id'', ''project_id'']),
        (''optimize_cost'', [''architecture_id'', ''project_id'']),
        (''design_disaster_recovery'', [''architecture_id'', ''project_id'']),
        (''analyze_cfn_failure'', [''stackId'', ''stackName'']),
        (''design_serverless_architecture'', [''requirement'']),
        (''design_event_driven_architecture'', [''requirement'']),
        (''design_api_gateway'', [''requirement'']),
        (''optimize_lambda_functions'', [''function_code'', ''runtime'']),
        (''design_step_functions_workflow'', [''requirement'']),
        (''set_target_properties'', [''requirements'']),
        (''analyze_tradeoffs'', [''target_properties'']),
        (''validate_targets'', [''target_properties'']),
        (''design_materials'', [''target_properties'']),
        (''rank_candidates'', [''candidate_materials'']),
        (''evaluate_feasibility'', [''material'']),
        (''create_experiment_plan'', [''materials'', ''target_properties'']),
        (''optimize_conditions'', [''experiment'']),
        (''estimate_resources'', [''experiment_plan''])]
       name []"

text \<open>
  A message names a field when it reads \<^verbatim>\<open><field> is required\<close> or
  \<^verbatim>\<open><field> are required\<close>, read without regard to case, blanks and underscores:
  \<^verbatim>\<open>Stack ID is required\<close> names \<^verbatim>\<open>stackId\<close>, \<^verbatim>\<open>Use case is required\<close> names \<^verbatim>\<open>use_case\<close>.
\<close>

definition to_lower :: "char \<Rightarrow> char" where
  "to_lower c =
     dict_get (zip ''ABCDEFGHIJKLMNOPQRSTUVWXYZ'' ''abcdefghijklmnopqrstuvwxyz'') c c"

definition normalize :: "string \<Rightarrow> string" where
  "normalize s = map to_lower (filter (\<lambda>c. c \<noteq> CHR '' '' \<and> c \<noteq> CHR ''_'') s)"

definition names_field :: "string \<Rightarrow> string \<Rightarrow> bool" where
  "names_field message field =
     (normalize message = normalize field @ ''isrequired'' \<or>
      normalize message = normalize field @ ''arerequired'')"

section \<open>Sample values\<close>

text \<open>
  An environment, an agent and services for the closed instances below: the clock stands
  in May 2023, \<^verbatim>\<open>datetime.fromisoformat\<close> is given on the one timestamp of the examples,
  the model answers one text block, \<^verbatim>\<open>json.loads\<close> is given on the one text
  \<^verbatim>\<open>[]\<close> and rejects the text \<^verbatim>\<open>{oops\<close> like every other, the bucket is empty and
  every service answers.
\<close>

definition sample_fromisoformat :: "string \<Rightarrow> (nat \<times> nat) option" where
  "sample_fromisoformat s = (if s = ''2023-05-15T10:30:45'' then Some (2023, 5) else None)"

text \<open>The library when every reading of the clock gives the year and month \<open>ym\<close>.\<close>

definition sample_datetime :: "nat \<times> nat \<Rightarrow> datetime_api" where
  "sample_datetime ym = \<lparr>dt_now = (\<lambda>k. ym), dt_fromisoformat = sample_fromisoformat\<rparr>"

definition sample_env :: env where
  "sample_env =
     \<lparr>env_now = (2023, 5),
      env_utcnow = ''2023-05-15T10:30:45'',
      env_fromisoformat = sample_fromisoformat,
      env_uuid4 = (\<lambda>n. if n = 0 then ''1111'' else ''2222''),
      env_str = (\<lambda>v. ''None''),
      env_json_loads = (\<lambda>s. if s = ''[]'' then Some (JArr []) else None),
      env_invoke_model = (\<lambda>messages. Inr (ContentBlocks [[(''type'', ''text''), (''text'', ''ok'')]])),
      env_prompt = (\<lambda>name locals loaded. Inr (''system prompt'', ''user prompt'')),
      env_payload = (\<lambda>name kind locals. [(''kind'', JStr kind)])\<rparr>"

definition sample_agent :: "string \<Rightarrow> agent" where
  "sample_agent a_type =
     \<lparr>agent_id = a_type @ ''-0001'', agent_type = a_type, created_at = ''2023-05-01T00:00:00'',
      state = ''initialized'', memory = JArr [],
      state_db = True, artifacts = True, queue = True, events = True\<rparr>"

definition sample_world :: world where
  "sample_world =
     \<lparr>bucket = \<lparr>bucket_name = ''artifacts'', objects = [],
                list_ok = True, put_ok = True, get_ok = True\<rparr>,
      state_table = [], state_table_ok = True,
      queue_messages = [], queue_ok = True,
      bus_events = [], bus_ok = True\<rparr>"

chapter \<open>Properties\<close>

section \<open>LLM client\<close>

lemmas eval_llm =
  outbound_messages_def role_of_def content_of_def dict_get_def enforce_alternation_def
  bridge_step_def list_insert_def upt_rec

text \<open>
  The index \<open>i\<close> of \<open>build_valid_messages\<close> counts every input message, so the folding
  branch (\<open>i = 0\<close>) is taken only by a user message that stands first in the input. Behind
  a leading system message every message passes through unchanged.
\<close>

lemma build_valid_messages_later:
  "0 < i \<Longrightarrow>
   build_valid_messages has_system system_content i messages =
     filter (\<lambda>msg. role_of msg = Some ''user'' \<or> role_of msg = Some ''assistant'') messages"
  by (induction messages arbitrary: i) auto

lemma outbound_messages_leading_system:
  assumes "role_of m = Some ''system''"
  shows "outbound_messages (m # rest) =
     (let valid_messages =
            filter (\<lambda>msg. role_of msg = Some ''user'' \<or> role_of msg = Some ''assistant'') rest
      in if valid_messages = [] then Inl (ValueError ''No valid messages provided'')
         else Inr (enforce_alternation valid_messages))"
  using assms
  by (simp add: outbound_messages_def build_valid_messages_later Let_def split: prod.splits)

text \<open>
  Claim C1 at the input of the specification, \<^verbatim>\<open>[system: X, user: Y]\<close>. The outbound list
  is the one user message with its content \<^verbatim>\<open>Y\<close> unchanged: no system entry is sent, and
  the system content \<^verbatim>\<open>X\<close> is not prepended, since the user message stands at index 1.
\<close>

theorem system_message_not_folded:
  "outbound_messages
     [[(''role'', ''system''), (''content'', x)],
      [(''role'', ''user''), (''content'', y)]]
   = Inr [[(''role'', ''user''), (''content'', y)]]"
  by (simp add: eval_llm)

text \<open>
  Claim C2 at a conversation with three assistant messages in a row. The range of the loop
  is fixed before the first insertion, so after one bridging message the scan stops one
  position short: the last two entries are both of role assistant.
\<close>

theorem alternation_not_enforced:
  "outbound_messages
     [[(''role'', ''user''), (''content'', ''q'')],
      [(''role'', ''assistant''), (''content'', ''a1'')],
      [(''role'', ''assistant''), (''content'', ''a2'')],
      [(''role'', ''assistant''), (''content'', ''a3'')]]
   = Inr [[(''role'', ''user''), (''content'', ''q'')],
          [(''role'', ''assistant''), (''content'', ''a1'')],
          [(''role'', ''user''), (''content'', ''Please continue.'')],
          [(''role'', ''assistant''), (''content'', ''a2'')],
          [(''role'', ''assistant''), (''content'', ''a3'')]]"
  by (simp add: eval_llm)

section \<open>Artifact store\<close>

subsection \<open>Digits and decimal text\<close>

declare show_nat.simps [simp del]







subsection \<open>The object key\<close>

lemmas eval_timestamp =
  path_year_month_def later_def sample_datetime_def sample_fromisoformat_def datetime_of_def

lemmas eval_key =
  format_path_def format_int_def int_digits_def max_str_digits_def artifact_prefix_def
  zero_pad_def show_int_def show_nat.simps digit_char_def



subsection \<open>File names and sequence numbers\<close>






















lemma map_of_dict_set_same: "map_of (dict_set k v xs) k = Some v"
  by (induction xs) auto






subsection \<open>Upload, then download\<close>




lemmas eval_store =
  upload_artifact_def upload_json_def download_artifact_def download_json_def
  get_artifact_sequence_number_def list_objects_v2_def matching_keys_def seq_step_def
  seq_of_filename_def filename_of_def py_int_def strip_def is_space_def nat_of_groups_def
  digits_value_def is_digit_def digit_of_def Let_def sublist_Cons_right



subsection \<open>The caller's document\<close>

text \<open>
  Claim C10. When \<^verbatim>\<open>upload_artifact\<close> returns, the dictionary the caller passed holds
  \<^verbatim>\<open>sequence_number\<close>, equal to the sequence number of the result; it is the caller's
  dictionary with that one key assigned, and it is the document stored under the
  returned key: the client stamps and writes the argument itself, not a copy.
\<close>

theorem upload_artifact_stamps_argument:
  assumes "upload_artifact dt st data p a t artifact_id timestamp = (data', st', Inr res)"
  shows "\<exists>n key. map_of res ''sequence_number'' = Some (JInt n) \<and>
           map_of data' ''sequence_number'' = Some (JInt n) \<and>
           data' = dict_set ''sequence_number'' (JInt n) data \<and>
           map_of res ''s3_key'' = Some (JStr key) \<and>
           map_of (objects st') key = Some data'"
  using assms
  by (auto simp: upload_artifact_def upload_json_def Let_def map_of_dict_set_same
      split: if_splits sum.splits)

text \<open>A first upload into an empty bucket.\<close>

theorem upload_artifact_stamps_argument_witness:
  "upload_artifact (sample_datetime (2023, 5))
     \<lparr>bucket_name = ''artifacts'', objects = [], list_ok = True, put_ok = True, get_ok = True\<rparr>
     [(''analysis'', JStr ''text'')] ''p1'' ''product_manager'' ''analysis'' ''abc''
     (Some ''2023-05-15T10:30:45'')
   = ([(''analysis'', JStr ''text''), (''sequence_number'', JInt 1)],
      \<lparr>bucket_name = ''artifacts'',
       objects = [(''projects/2023/05/p1/product_manager/analysis/seq_1_abc.json'',
                   [(''analysis'', JStr ''text''), (''sequence_number'', JInt 1)])],
       list_ok = True, put_ok = True, get_ok = True\<rparr>,
      Inr [(''response'', JObj []),
           (''s3_key'', JStr ''projects/2023/05/p1/product_manager/analysis/seq_1_abc.json''),
           (''bucket'', JStr ''artifacts''), (''sequence_number'', JInt 1)]) \<and>
   (\<exists>n key.
      map_of [(''response'', JObj []),
           (''s3_key'', JStr ''projects/2023/05/p1/product_manager/analysis/seq_1_abc.json''),
           (''bucket'', JStr ''artifacts''), (''sequence_number'', JInt 1)] ''sequence_number''
        = Some (JInt n) \<and>
      map_of [(''analysis'', JStr ''text''), (''sequence_number'', JInt 1)] ''sequence_number''
        = Some (JInt n))"
proof -
  have up: "upload_artifact (sample_datetime (2023, 5))
     \<lparr>bucket_name = ''artifacts'', objects = [], list_ok = True, put_ok = True, get_ok = True\<rparr>
     [(''analysis'', JStr ''text'')] ''p1'' ''product_manager'' ''analysis'' ''abc''
     (Some ''2023-05-15T10:30:45'')
   = ([(''analysis'', JStr ''text''), (''sequence_number'', JInt 1)],
      \<lparr>bucket_name = ''artifacts'',
       objects = [(''projects/2023/05/p1/product_manager/analysis/seq_1_abc.json'',
                   [(''analysis'', JStr ''text''), (''sequence_number'', JInt 1)])],
       list_ok = True, put_ok = True, get_ok = True\<rparr>,
      Inr [(''response'', JObj []),
           (''s3_key'', JStr ''projects/2023/05/p1/product_manager/analysis/seq_1_abc.json''),
           (''bucket'', JStr ''artifacts''), (''sequence_number'', JInt 1)])"
    by (simp add: eval_store eval_timestamp eval_key)
  from upload_artifact_stamps_argument[OF up] up show ?thesis by blast
qed

section \<open>Domain agents\<close>

subsection \<open>Required inputs\<close>

lemma first_missing_first:
  assumes "find (\<lambda>f. \<not> truthy (dict_get input_data f JNull)) (map fst required) = Some f"
  shows "\<exists>m. (f, m) \<in> set required \<and> first_missing required input_data = Some m"
  using assms
proof (induction required)
  case Nil
  then show ?case by simp
next
  case (Cons p rest)
  obtain g m where p: "p = (g, m)" by (cases p)
  show ?case
  proof (cases "truthy (dict_get input_data g JNull)")
    case True
    with Cons.prems p
    have "find (\<lambda>f. \<not> truthy (dict_get input_data f JNull)) (map fst rest) = Some f" by simp
    from Cons.IH[OF this] True p show ?thesis by auto
  next
    case False
    with Cons.prems p show ?thesis by auto
  qed
qed

lemmas operations_defs =
  analyze_requirement_def create_user_stories_def create_competitive_analysis_def
  create_product_requirement_doc_def create_architecture_def create_class_diagram_def
  create_sequence_diagram_def create_api_design_def implement_code_def review_code_def
  fix_bugs_def design_cloud_architecture_def evaluate_architecture_def
  create_infrastructure_diagram_def optimize_cost_def design_disaster_recovery_def
  analyze_cfn_failure_def design_serverless_architecture_def
  design_event_driven_architecture_def design_api_gateway_def optimize_lambda_functions_def
  design_step_functions_workflow_def set_target_properties_def analyze_tradeoffs_def
  validate_targets_def design_materials_def rank_candidates_def evaluate_feasibility_def
  create_experiment_plan_def optimize_conditions_def estimate_resources_def

lemma domain_operations:
  assumes "da \<in> set domain_agents" and "op \<in> set (da_operations da)"
  shows "op \<in> set [analyze_requirement, create_user_stories, create_competitive_analysis,
           create_product_requirement_doc, create_architecture, create_class_diagram,
           create_sequence_diagram, create_api_design, implement_code, review_code, fix_bugs,
           design_cloud_architecture, evaluate_architecture, create_infrastructure_diagram,
           optimize_cost, design_disaster_recovery, analyze_cfn_failure,
           design_serverless_architecture, design_event_driven_architecture,
           design_api_gateway, optimize_lambda_functions, design_step_functions_workflow,
           set_target_properties, analyze_tradeoffs, validate_targets, design_materials,
           rank_candidates, evaluate_feasibility, create_experiment_plan, optimize_conditions,
           estimate_resources]"
  using assms
  by (auto simp: domain_agents_def product_manager_def architect_def engineer_def
      cloud_architect_def serverless_architect_def property_target_def inverse_design_def
      experiment_planning_def)

lemma required_messages:
  "names_field ''Requirement is required'' ''requirement''"
  "names_field ''Architecture ID is required'' ''architecture_id''"
  "names_field ''Project ID is required'' ''project_id''"
  "names_field ''Use case is required'' ''use_case''"
  "names_field ''Implementation ID is required'' ''implementation_id''"
  "names_field ''Stack ID is required'' ''stackId''"
  "names_field ''Stack Name is required'' ''stackName''"
  "names_field ''Function code is required'' ''function_code''"
  "names_field ''Runtime is required'' ''runtime''"
  "names_field ''Requirements are required'' ''requirements''"
  "names_field ''Target properties are required'' ''target_properties''"
  "names_field ''Candidate materials are required'' ''candidate_materials''"
  "names_field ''Material is required'' ''material''"
  "names_field ''Materials are required'' ''materials''"
  "names_field ''Experiment is required'' ''experiment''"
  "names_field ''Experiment plan is required'' ''experiment_plan''"
  by (simp_all add: names_field_def normalize_def to_lower_def dict_get_def)

text \<open>
  The checks of the source against the table of the specification: every operation checks
  exactly the fields the table marks as required, each with a message that names it.
\<close>

lemma required_checks:
  assumes "da \<in> set domain_agents" and "op \<in> set (da_operations da)"
  shows "set (map fst (op_required op)) = set (spec_required_inputs (op_name op)) \<and>
         list_all (\<lambda>p. names_field (snd p) (fst p)) (op_required op)"
proof -
  from domain_operations[OF assms]
  consider "op \<in> set [analyze_requirement, create_user_stories, create_competitive_analysis,
           create_product_requirement_doc, create_architecture, create_class_diagram,
           create_sequence_diagram, create_api_design, implement_code, review_code, fix_bugs]"
    | "op \<in> set [design_cloud_architecture, evaluate_architecture,
           create_infrastructure_diagram, optimize_cost, design_disaster_recovery,
           analyze_cfn_failure, design_serverless_architecture,
           design_event_driven_architecture, design_api_gateway, optimize_lambda_functions,
           design_step_functions_workflow]"
    | "op \<in> set [set_target_properties, analyze_tradeoffs, validate_targets, design_materials,
           rank_candidates, evaluate_feasibility, create_experiment_plan, optimize_conditions,
           estimate_resources]"
    by auto
  then show ?thesis
  proof cases
    case 1
    then show ?thesis
      unfolding set_simps insert_iff empty_iff
      by (elim disjE; simp add: operations_defs spec_required_inputs_def dict_get_def
          required_messages insert_commute)
  next
    case 2
    then show ?thesis
      unfolding set_simps insert_iff empty_iff
      by (elim disjE; simp add: operations_defs spec_required_inputs_def dict_get_def
          required_messages insert_commute)
  next
    case 3
    then show ?thesis
      unfolding set_simps insert_iff empty_iff
      by (elim disjE; simp add: operations_defs spec_required_inputs_def dict_get_def
          required_messages insert_commute)
  qed
qed

text \<open>
  Claim C3, as the code has it. Let \<open>op\<close> be an operation of one of the eight agents and
  \<open>field\<close> an input that the table of the specification marks as required for it, and let
  the input omit \<open>field\<close>. Then the operation raises \<^verbatim>\<open>ValueError\<close> with a message that
  names a required field: the first, in the order of the checks of the source, that the
  input omits or gives no true value for (an empty string, for one). That is \<open>field\<close>
  itself when every other required field has a true value. The agent and every service are
  as they were before the call: no artifact, no state record, no memory record, no event,
  no message.
\<close>

theorem required_field_validation:
  assumes "da \<in> set domain_agents" and "op \<in> set (da_operations da)"
    and "field \<in> set (spec_required_inputs (op_name op))"
    and "map_of input_data field = None"
  shows "\<exists>field' message.
           find (\<lambda>f. \<not> truthy (dict_get input_data f JNull)) (map fst (op_required op))
             = Some field' \<and>
           field' \<in> set (spec_required_inputs (op_name op)) \<and>
           names_field message field' \<and>
           ((\<forall>f \<in> set (spec_required_inputs (op_name op)) - {field}.
               truthy (dict_get input_data f JNull)) \<longrightarrow> field' = field) \<and>
           run_operation e op input_data (a, w) = (Inl (ValueError message), (a, w))"
proof -
  let ?missing = "\<lambda>f. \<not> truthy (dict_get input_data f JNull)"
  from required_checks[OF assms(1,2)]
  have fields: "set (map fst (op_required op)) = set (spec_required_inputs (op_name op))"
    and names: "list_all (\<lambda>p. names_field (snd p) (fst p)) (op_required op)" by simp_all
  from assms(4) have miss: "?missing field" by (simp add: dict_get_def)
  from assms(3) fields have "field \<in> set (map fst (op_required op))" by simp
  with miss have "find ?missing (map fst (op_required op)) \<noteq> None"
    by (auto simp: find_None_iff)
  then obtain field' where f: "find ?missing (map fst (op_required op)) = Some field'" by auto
  then have in_set: "field' \<in> set (map fst (op_required op))" and miss': "?missing field'"
    by (auto simp: find_Some_iff)
  from first_missing_first[OF f] obtain message
    where m: "(field', message) \<in> set (op_required op)"
      and fm: "first_missing (op_required op) input_data = Some message" by blast
  from names m have "names_field message field'" by (auto simp: list_all_iff)
  moreover from in_set fields have "field' \<in> set (spec_required_inputs (op_name op))" by simp
  moreover from this miss'
  have "(\<forall>f \<in> set (spec_required_inputs (op_name op)) - {field}.
            truthy (dict_get input_data f JNull)) \<longrightarrow> field' = field" by auto
  moreover from fm
  have "run_operation e op input_data (a, w) = (Inl (ValueError message), (a, w))"
    by (simp add: run_operation_def raise_def)
  ultimately show ?thesis using f by blast
qed

text \<open>
  The operations the claim names: \<^verbatim>\<open>analyze_requirement\<close> without \<^verbatim>\<open>requirement\<close>, and
  \<^verbatim>\<open>create_class_diagram\<close> with an \<^verbatim>\<open>architecture_id\<close> and without \<^verbatim>\<open>project_id\<close>.
\<close>

theorem required_field_validation_witness:
  "product_manager \<in> set domain_agents \<and>
   analyze_requirement \<in> set (da_operations product_manager) \<and>
   ''requirement'' \<in> set (spec_required_inputs (op_name analyze_requirement)) \<and>
   map_of [(''project_id'', JStr ''p1'')] ''requirement'' = None \<and>
   (\<exists>message. names_field message ''requirement'' \<and>
      run_operation sample_env analyze_requirement [(''project_id'', JStr ''p1'')]
        (sample_agent ''product_manager'', sample_world)
      = (Inl (ValueError message), (sample_agent ''product_manager'', sample_world))) \<and>
   architect \<in> set domain_agents \<and>
   create_class_diagram \<in> set (da_operations architect) \<and>
   ''project_id'' \<in> set (spec_required_inputs (op_name create_class_diagram)) \<and>
   map_of [(''architecture_id'', JStr ''a1'')] ''project_id'' = None \<and>
   (\<exists>message. names_field message ''project_id'' \<and>
      run_operation sample_env create_class_diagram [(''architecture_id'', JStr ''a1'')]
        (sample_agent ''architect'', sample_world)
      = (Inl (ValueError message), (sample_agent ''architect'', sample_world)))"
proof -
  have pm: "product_manager \<in> set domain_agents" and ar: "architect \<in> set domain_agents"
    by (simp_all add: domain_agents_def)
  have op1: "analyze_requirement \<in> set (da_operations product_manager)"
    by (simp add: product_manager_def)
  have op2: "create_class_diagram \<in> set (da_operations architect)"
    by (simp add: architect_def)
  have s1: "spec_required_inputs (op_name analyze_requirement) = [''requirement'']"
    by (simp add: analyze_requirement_def spec_required_inputs_def dict_get_def)
  have s2: "spec_required_inputs (op_name create_class_diagram)
              = [''architecture_id'', ''project_id'']"
    by (simp add: create_class_diagram_def spec_required_inputs_def dict_get_def)
  have r1: "''requirement'' \<in> set (spec_required_inputs (op_name analyze_requirement))"
    by (simp add: s1)
  have r2: "''project_id'' \<in> set (spec_required_inputs (op_name create_class_diagram))"
    by (simp add: s2)
  have m1: "map_of [(''project_id'', JStr ''p1'')] ''requirement'' = None" by simp
  have m2: "map_of [(''architecture_id'', JStr ''a1'')] ''project_id'' = None" by simp
  from required_field_validation[OF pm op1 r1 m1, of sample_env
      "sample_agent ''product_manager''" sample_world]
  have c1: "\<exists>message. names_field message ''requirement'' \<and>
      run_operation sample_env analyze_requirement [(''project_id'', JStr ''p1'')]
        (sample_agent ''product_manager'', sample_world)
      = (Inl (ValueError message), (sample_agent ''product_manager'', sample_world))"
    by (auto simp: s1)
  from required_field_validation[OF ar op2 r2 m2, of sample_env "sample_agent ''architect''"
      sample_world]
  have c2: "\<exists>message. names_field message ''project_id'' \<and>
      run_operation sample_env create_class_diagram [(''architecture_id'', JStr ''a1'')]
        (sample_agent ''architect'', sample_world)
      = (Inl (ValueError message), (sample_agent ''architect'', sample_world))"
    by (auto simp: s2 dict_get_def)
  from pm ar op1 op2 r1 r2 m1 m2 c1 c2 show ?thesis by blast
qed

text \<open>
  The claim as stated fails at \<^verbatim>\<open>create_class_diagram\<close> when the input omits
  \<^verbatim>\<open>project_id\<close> and holds an empty \<^verbatim>\<open>architecture_id\<close>: the message names
  \<^verbatim>\<open>architecture_id\<close>, which the input does not omit, and not the missing field.
\<close>

theorem required_field_validation_counterexample:
  "map_of [(''architecture_id'', JStr [])] ''project_id'' = None \<and>
   map_of [(''architecture_id'', JStr [])] ''architecture_id'' = Some (JStr []) \<and>
   run_operation sample_env create_class_diagram [(''architecture_id'', JStr [])]
     (sample_agent ''architect'', sample_world)
   = (Inl (ValueError ''Architecture ID is required''),
      (sample_agent ''architect'', sample_world)) \<and>
   \<not> names_field ''Architecture ID is required'' ''project_id''"
  by (simp add: run_operation_def create_class_diagram_def dict_get_def raise_def
      names_field_def normalize_def to_lower_def)

subsection \<open>Unknown process types\<close>






subsection \<open>Operations without memory and state\<close>

lemma bind_return [simp]: "bind (return x) f = f x"
  by (rule ext) (simp add: bind_def return_def)

lemma bind_raise [simp]: "bind (raise err) f = raise err"
  by (rule ext) (simp add: bind_def raise_def)

lemma build_messages_ctx:
  "build_messages e op locals loaded c = (r, c') \<Longrightarrow> c' = c"
  by (auto simp: build_messages_def raise_def return_def split: sum.splits prod.splits)

lemma ask_llm_ctx: "ask_llm e messages c = (r, c') \<Longrightarrow> c' = c"
  by (simp add: ask_llm_def)

lemma artifacts_upload_effect:
  assumes "artifacts_upload e cls data project_id a_type artifact_type artifact_id timestamp (a, w)
             = (r, c')"
  shows "(case r of
            Inl err \<Rightarrow> c' = (a, w)
          | Inr artifact_data \<Rightarrow>
              \<exists>key doc. c' = (a, w\<lparr>bucket := (bucket w)\<lparr>objects :=
                                     dict_set key doc (objects (bucket w))\<rparr>\<rparr>))"
  using assms
  by (auto simp: artifacts_upload_def upload_artifact_def upload_json_def Let_def
      split: if_splits sum.splits prod.splits)

lemma emit_event_effect:
  assumes "emit_event detail_type detail (a, w) = (r, c')"
  shows "(case r of
            Inl err \<Rightarrow> c' = (a, w)
          | Inr u \<Rightarrow>
              c' = (a, if events a
                       then w\<lparr>bus_events := bus_events w @
                              [(''agent.'' @ agent_type a, detail_type,
                                dict_set ''agent_type'' (JStr (agent_type a))
                                  (dict_set ''agent_id'' (JStr (agent_id a)) detail))]\<rparr>
                       else w))"
  using assms
  by (auto simp: emit_event_def Let_def split: if_splits)


lemma bind_cases:
  assumes "bind m f c = (Inr y, c')"
  obtains x c1 where "m c = (Inr x, c1)" and "f x c1 = (Inr y, c')"
  using assms by (auto simp: bind_def split: prod.splits sum.splits)

lemma stateless_body_success:
  assumes shape: "op_required_load op = None" "op_optional_loads op = []" "\<not> op_resave op"
      "op_state op = None" "op_recipients op = []"
    and run: "operation_body e op locals (a, w) = (Inr result, c')"
  shows "\<exists>key doc detail.
           c' = (a, (case op_event op of
                       None \<Rightarrow> w\<lparr>bucket := (bucket w)\<lparr>objects :=
                                  dict_set key doc (objects (bucket w))\<rparr>\<rparr>
                     | Some detail_type \<Rightarrow>
                         if events a
                         then w\<lparr>bucket := (bucket w)\<lparr>objects :=
                                  dict_set key doc (objects (bucket w))\<rparr>,
                                bus_events := bus_events w @
                                  [(''agent.'' @ agent_type a, detail_type, detail)]\<rparr>
                         else w\<lparr>bucket := (bucket w)\<lparr>objects :=
                                  dict_set key doc (objects (bucket w))\<rparr>\<rparr>))
           \<and> map_of result ''status'' = Some (JStr ''success'')"
proof -
  define locals2 where "locals2 = (\<lambda>response.
     dict_set ''artifact_id'' (JStr (new_artifact_id e op))
       (dict_set ''content'' (dict_get response ''content'' (JStr [])) locals))"
  define locals3 where "locals3 = (\<lambda>response artifact_data.
     dict_set ''s3_key'' (JStr (s3_key_of artifact_data)) (locals2 response))"
  define upload where "upload = (\<lambda>response.
     artifacts_upload e (op_class op)
       (env_payload e (op_name op) ''artifact'' (locals2 response))
       (dict_get (locals2 response) (op_session_field op) JNull) (op_agent_type op)
       (op_artifact_type op) (new_artifact_id e op)
       (dict_get (locals2 response) ''timestamp'' JNull))"
  define emit where "emit = (\<lambda>response artifact_data.
     case op_event op of
       None \<Rightarrow> return ()
     | Some detail_type \<Rightarrow>
         emit_event detail_type
           (env_payload e (op_name op) ''event'' (locals3 response artifact_data)))"
  define finish where "finish = (\<lambda>response artifact_data.
     return ((''status'', JStr ''success'')
             # env_payload e (op_name op) ''result'' (locals3 response artifact_data)))"
  have body: "operation_body e op locals =
     bind (build_messages e op locals []) (\<lambda>messages.
     bind (ask_llm e messages) (\<lambda>response.
     bind (upload response) (\<lambda>artifact_data.
     bind (emit response artifact_data) (\<lambda>_. finish response artifact_data))))"
    using shape
    by (simp add: operation_body_def load_required_def Let_def locals2_def locals3_def
        upload_def emit_def finish_def cong: option.case_cong)
  from run body obtain messages c1 where
    s1: "build_messages e op locals [] (a, w) = (Inr messages, c1)" and
    r1: "bind (ask_llm e messages) (\<lambda>response.
         bind (upload response) (\<lambda>artifact_data.
         bind (emit response artifact_data) (\<lambda>_. finish response artifact_data))) c1
         = (Inr result, c')"
    by (auto elim: bind_cases)
  from build_messages_ctx[OF s1] have c1: "c1 = (a, w)" .
  from r1 obtain response c2 where
    s2: "ask_llm e messages c1 = (Inr response, c2)" and
    r2: "bind (upload response) (\<lambda>artifact_data.
         bind (emit response artifact_data) (\<lambda>_. finish response artifact_data)) c2
         = (Inr result, c')"
    by (rule bind_cases)
  from ask_llm_ctx[OF s2] c1 have c2: "c2 = (a, w)" by simp
  from r2 obtain artifact_data c3 where
    s3: "upload response c2 = (Inr artifact_data, c3)" and
    r3: "bind (emit response artifact_data) (\<lambda>_. finish response artifact_data) c3
         = (Inr result, c')"
    by (rule bind_cases)
  from s3 c2 have "artifacts_upload e (op_class op)
       (env_payload e (op_name op) ''artifact'' (locals2 response))
       (dict_get (locals2 response) (op_session_field op) JNull) (op_agent_type op)
       (op_artifact_type op) (new_artifact_id e op)
       (dict_get (locals2 response) ''timestamp'' JNull) (a, w) = (Inr artifact_data, c3)"
    by (simp add: upload_def)
  from artifacts_upload_effect[OF this] obtain key doc where
    c3: "c3 = (a, w\<lparr>bucket := (bucket w)\<lparr>objects := dict_set key doc (objects (bucket w))\<rparr>\<rparr>)"
    by auto
  from r3 obtain u c4 where
    s4: "emit response artifact_data c3 = (Inr u, c4)" and
    r4: "finish response artifact_data c4 = (Inr result, c')"
    by (rule bind_cases)
  from r4 have res: "map_of result ''status'' = Some (JStr ''success'')" and c4: "c' = c4"
    by (auto simp: finish_def return_def)
  show ?thesis
  proof (cases "op_event op")
    case None
    with s4 c3 c4 res show ?thesis by (auto simp: emit_def return_def)
  next
    case (Some detail_type)
    with s4 c3 have "emit_event detail_type
        (env_payload e (op_name op) ''event'' (locals3 response artifact_data))
        (a, w\<lparr>bucket := (bucket w)\<lparr>objects := dict_set key doc (objects (bucket w))\<rparr>\<rparr>)
        = (Inr u, c4)" by (simp add: emit_def)
    from emit_event_effect[OF this] Some c4 res show ?thesis
      by (cases "events a") auto
  qed
qed

lemmas materials_ops_defs =
  set_target_properties_def analyze_tradeoffs_def validate_targets_def design_materials_def
  rank_candidates_def evaluate_feasibility_def create_experiment_plan_def
  optimize_conditions_def estimate_resources_def

lemma materials_operations:
  assumes "da \<in> set materials_agents" and "op \<in> set (da_operations da)"
  shows "op \<in> set [set_target_properties, analyze_tradeoffs, validate_targets, design_materials,
                    rank_candidates, evaluate_feasibility, create_experiment_plan,
                    optimize_conditions, estimate_resources]"
  using assms
  by (auto simp: materials_agents_def property_target_def inverse_design_def
      experiment_planning_def)

lemma materials_shape:
  assumes "da \<in> set materials_agents" and "op \<in> set (da_operations da)"
  shows "op_required_load op = None \<and> op_optional_loads op = [] \<and> \<not> op_resave op \<and>
         op_state op = None \<and> op_recipients op = [] \<and> op_guarded op \<and>
         (op_event op \<noteq> None) =
           (op_name op \<in> set [''set_target_properties'', ''design_materials'',
                                ''create_experiment_plan''])"
  using materials_operations[OF assms]
  by (auto simp: materials_ops_defs)

text \<open>
  Claim C9, as the code has it. A successful operation of one of the three Materials agents
  leaves the agent as it was (no memory record, the same state label) and writes no state
  record and no message; it makes one write to the bucket and, for exactly the operations
  \<^verbatim>\<open>set_target_properties\<close>, \<^verbatim>\<open>design_materials\<close> and \<^verbatim>\<open>create_experiment_plan\<close>, emits
  one event (published when an event bus is bound).
\<close>

theorem materials_operations_frame:
  assumes "da \<in> set materials_agents" and "op \<in> set (da_operations da)"
    and "run_operation e op input_data (a, w) = (Inr result, (a', w'))"
    and "map_of result ''status'' = Some (JStr ''success'')"
  shows "a' = a \<and>
         state_table w' = state_table w \<and>
         queue_messages w' = queue_messages w \<and>
         (\<exists>key doc. bucket w' = (bucket w)\<lparr>objects := dict_set key doc (objects (bucket w))\<rparr>) \<and>
         (\<exists>detail. bus_events w' =
            bus_events w @
              (case op_event op of
                 None \<Rightarrow> []
               | Some detail_type \<Rightarrow>
                   if events a then [(''agent.'' @ agent_type a, detail_type, detail)] else [])) \<and>
         (op_event op \<noteq> None) =
           (op_name op \<in> set [''set_target_properties'', ''design_materials'',
                                ''create_experiment_plan''])"
proof -
  note shape = materials_shape[OF assms(1,2)]
  from assms(3) have fm: "first_missing (op_required op) input_data = None"
    by (auto simp: run_operation_def raise_def split: option.splits)
  with assms(3) shape have t: "try_except (operation_body e op (read_inputs e op input_data))
      (\<lambda>err. return (failed err)) (a, w) = (Inr result, (a', w'))"
    by (simp add: run_operation_def)
  have body: "operation_body e op (read_inputs e op input_data) (a, w) = (Inr result, (a', w'))"
  proof -
    obtain r c where Pair: "operation_body e op (read_inputs e op input_data) (a, w) = (r, c)"
      by (cases "operation_body e op (read_inputs e op input_data) (a, w)")
    show ?thesis
    proof (cases r)
      case (Inl err)
      with Pair t have "result = failed err"
        by (simp add: try_except_def return_def)
      with assms(4) show ?thesis by (simp add: failed_def)
    next
      case (Inr x)
      with Pair t show ?thesis by (simp add: try_except_def)
    qed
  qed
  from shape have s1: "op_required_load op = None" and s2: "op_optional_loads op = []"
    and s3: "\<not> op_resave op" and s4: "op_state op = None" and s5: "op_recipients op = []"
    by simp_all
  from stateless_body_success[OF s1 s2 s3 s4 s5 body]
  obtain key doc detail where
    c: "(a', w') = (a, (case op_event op of
                       None \<Rightarrow> w\<lparr>bucket := (bucket w)\<lparr>objects :=
                                  dict_set key doc (objects (bucket w))\<rparr>\<rparr>
                     | Some detail_type \<Rightarrow>
                         if events a
                         then w\<lparr>bucket := (bucket w)\<lparr>objects :=
                                  dict_set key doc (objects (bucket w))\<rparr>,
                                bus_events := bus_events w @
                                  [(''agent.'' @ agent_type a, detail_type, detail)]\<rparr>
                         else w\<lparr>bucket := (bucket w)\<lparr>objects :=
                                  dict_set key doc (objects (bucket w))\<rparr>\<rparr>))"
    by blast
  from c shape show ?thesis
    by (cases "op_event op") (auto split: if_splits)
qed

lemmas eval_agent =
  run_operation_def operation_body_def read_inputs_def new_artifact_id_def load_required_def
  build_messages_def s3_key_of_def failed_def
  bind_def return_def raise_def try_except_def
  ask_llm_def invoke_llm_def artifacts_upload_def artifacts_download_def timestamp_arg_def
  emit_event_def send_message_def save_state_def put_item_def add_to_memory_def set_state_def
  save_artifact_def fmt_def dict_get_def
  sample_env_def sample_agent_def sample_world_def

text \<open>
  The claim as stated fails at \<^verbatim>\<open>design_materials\<close> of the Inverse Design agent: the
  operation succeeds and publishes the event \<^verbatim>\<open>MaterialsDesigned\<close>.
\<close>

theorem materials_operations_frame_counterexample:
  "run_operation sample_env design_materials
     [(''target_properties'', JObj [(''bandgap'', JInt 1)])]
     (sample_agent ''inverse_design'', sample_world)
   = (Inr [(''status'', JStr ''success''), (''kind'', JStr ''result'')],
      (sample_agent ''inverse_design'',
       sample_world
         \<lparr>bucket := \<lparr>bucket_name = ''artifacts'',
            objects =
              [(''projects/2023/05/1111/inverse_design/candidate_materials/seq_1_2222.json'',
                [(''kind'', JStr ''artifact''), (''sequence_number'', JInt 1)])],
            list_ok = True, put_ok = True, get_ok = True\<rparr>,
          bus_events :=
            [(''agent.inverse_design'', ''MaterialsDesigned'',
              [(''kind'', JStr ''event''), (''agent_id'', JStr ''inverse_design-0001''),
               (''agent_type'', JStr ''inverse_design'')])]\<rparr>))"
  by (simp add: eval_agent design_materials_def eval_llm eval_store eval_timestamp eval_key)

text \<open>\<^verbatim>\<open>analyze_tradeoffs\<close> of the Property Target agent: one artifact, nothing else.\<close>

theorem materials_operations_frame_witness:
  "property_target \<in> set materials_agents \<and>
   analyze_tradeoffs \<in> set (da_operations property_target) \<and>
   run_operation sample_env analyze_tradeoffs
     [(''target_properties'', JObj [(''bandgap'', JInt 1)])]
     (sample_agent ''property_target'', sample_world)
   = (Inr [(''status'', JStr ''success''), (''kind'', JStr ''result'')],
      (sample_agent ''property_target'',
       sample_world
         \<lparr>bucket := \<lparr>bucket_name = ''artifacts'',
            objects =
              [(''projects/2023/05/1111/property_target/tradeoff_analysis/seq_1_2222.json'',
                [(''kind'', JStr ''artifact''), (''sequence_number'', JInt 1)])],
            list_ok = True, put_ok = True, get_ok = True\<rparr>\<rparr>)) \<and>
   map_of [(''status'', JStr ''success''), (''kind'', JStr ''result'')] ''status''
     = Some (JStr ''success'') \<and>
   op_event analyze_tradeoffs = None"
proof -
  have da: "property_target \<in> set materials_agents" by (simp add: materials_agents_def)
  have op: "analyze_tradeoffs \<in> set (da_operations property_target)"
    by (simp add: property_target_def)
  have run: "run_operation sample_env analyze_tradeoffs
     [(''target_properties'', JObj [(''bandgap'', JInt 1)])]
     (sample_agent ''property_target'', sample_world)
   = (Inr [(''status'', JStr ''success''), (''kind'', JStr ''result'')],
      (sample_agent ''property_target'',
       sample_world
         \<lparr>bucket := \<lparr>bucket_name = ''artifacts'',
            objects =
              [(''projects/2023/05/1111/property_target/tradeoff_analysis/seq_1_2222.json'',
                [(''kind'', JStr ''artifact''), (''sequence_number'', JInt 1)])],
            list_ok = True, put_ok = True, get_ok = True\<rparr>\<rparr>))"
    by (simp add: eval_agent analyze_tradeoffs_def eval_llm eval_store eval_timestamp eval_key)
  have ok: "map_of [(''status'', JStr ''success''), (''kind'', JStr ''result'')] ''status''
     = Some (JStr ''success'')" by simp
  from materials_operations_frame[OF da op run ok]
  have "(op_event analyze_tradeoffs \<noteq> None) =
          (op_name analyze_tradeoffs \<in> set [''set_target_properties'', ''design_materials'',
                                ''create_experiment_plan''])" by blast
  then have "op_event analyze_tradeoffs = None" by (simp add: analyze_tradeoffs_def)
  with da op run ok show ?thesis by blast
qed

section \<open>CloudFormation event parser\<close>















subsection \<open>Loading the state\<close>

text \<open>
  What holds of \<^verbatim>\<open>load_state\<close>: without a state store, when the store raises, and when
  it has no record, the call returns \<^verbatim>\<open>False\<close> and the agent is as it was.
\<close>

lemma load_state_store_error:
  "\<not> state_db a \<or> \<not> state_table_ok w \<Longrightarrow> load_state e state_id (a, w) = (Inr False, (a, w))"
  by (auto simp: load_state_def)

lemma load_state_returns:
  "\<exists>b a'. load_state e state_id (a, w) = (Inr b, (a', w))"
  by (auto simp: load_state_def Let_def split: option.splits list.splits)

text \<open>
  Claim C8 at a record whose \<^verbatim>\<open>memory\<close> is not JSON. Lines 116--117 have assigned
  \<^verbatim>\<open>agent_type\<close> and \<^verbatim>\<open>state\<close> from the record when \<^verbatim>\<open>json.loads\<close> raises on line 118:
  the call returns \<^verbatim>\<open>False\<close>, with these two fields changed and \<^verbatim>\<open>memory\<close> and
  \<^verbatim>\<open>created_at\<close> as they were.
\<close>

theorem load_state_partial_update:
  assumes "state_db a" and "state_table_ok w" and "sid \<noteq> []"
    and "get_item (state_table w) (agent_id a) sid = Some item"
    and "item_memory item = Some m" and "env_json_loads e m = None"
  shows "load_state e (Some sid) (a, w) =
           (Inr False,
            (a\<lparr>agent_type := (case agentType item of None \<Rightarrow> agent_type a | Some t \<Rightarrow> t),
               state := (case item_state item of None \<Rightarrow> state a | Some s \<Rightarrow> s)\<rparr>, w))"
  using assms by (simp add: load_state_def Let_def split: option.splits)

theorem load_state_partial_update_witness:
  "load_state sample_env (Some ''2023-05-10T09:00:00'')
     (sample_agent ''base'',
      sample_world\<lparr>state_table :=
        [\<lparr>agentId = ''base-0001'', stateId = ''2023-05-10T09:00:00'',
          agentType = Some ''architect'', item_state = Some ''architecture_created'',
          item_memory = Some ''{oops'', createdAt = Some ''2023-05-10T08:00:00'',
          updatedAt = Some ''2023-05-10T09:00:00''\<rparr>]\<rparr>)
   = (Inr False,
      (\<lparr>agent_id = ''base-0001'', agent_type = ''architect'',
        created_at = ''2023-05-01T00:00:00'', state = ''architecture_created'',
        memory = JArr [], state_db = True, artifacts = True, queue = True, events = True\<rparr>,
       sample_world\<lparr>state_table :=
        [\<lparr>agentId = ''base-0001'', stateId = ''2023-05-10T09:00:00'',
          agentType = Some ''architect'', item_state = Some ''architecture_created'',
          item_memory = Some ''{oops'', createdAt = Some ''2023-05-10T08:00:00'',
          updatedAt = Some ''2023-05-10T09:00:00''\<rparr>]\<rparr>))"
proof -
  define item where "item = \<lparr>agentId = ''base-0001'', stateId = ''2023-05-10T09:00:00'',
          agentType = Some ''architect'', item_state = Some ''architecture_created'',
          item_memory = Some ''{oops'', createdAt = Some ''2023-05-10T08:00:00'',
          updatedAt = Some ''2023-05-10T09:00:00''\<rparr>"
  define w where "w = sample_world\<lparr>state_table := [item]\<rparr>"
  have 1: "state_db (sample_agent ''base'')" by (simp add: sample_agent_def)
  have 2: "state_table_ok w" by (simp add: w_def sample_world_def)
  have 3: "''2023-05-10T09:00:00'' \<noteq> []" by simp
  have 4: "get_item (state_table w) (agent_id (sample_agent ''base'')) ''2023-05-10T09:00:00''
             = Some item"
    by (simp add: w_def get_item_def item_def sample_agent_def)
  have 5: "item_memory item = Some ''{oops''" by (simp add: item_def)
  have 6: "env_json_loads sample_env ''{oops'' = None" by (simp add: sample_env_def)
  from load_state_partial_update[OF 1 2 3 4 5 6]
  show ?thesis
    by (simp add: w_def item_def sample_agent_def)
qed

end
